theory Spec2Isabelle
  imports Complex_Main "HOL-Library.Sublist"
begin

section \<open>Python values and the built-ins the plugin calls\<close>

text \<open>
  The plugin is dynamically typed: a box configuration is whatever \<^verbatim>\<open>json.loads\<close>
  produced, and a submitted value is whatever the form layer put into the mapping.
  Values are therefore one datatype. A \<^verbatim>\<open>str\<close> is a list of code points below 256, a
  \<^verbatim>\<open>bytes\<close> a list of bytes. A dict with string keys is an association list in
  insertion order that holds each key once (as a Python dict does); \<open>PObject\<close> is an
  object that has named attributes and nothing else (no length, no items, not iterable),
  such as the uploaded-file object of the form layer.
\<close>

datatype pyfloat = FNan | FInf bool | FFinite rat

datatype pyval =
    PNone
  | PBool bool
  | PInt int
  | PFloat pyfloat
  | PStr string
  | PBytes string
  | PList "pyval list"
  | PDict "(string \<times> pyval) list"
  | PObject "(string \<times> pyval) list"

text \<open>Exceptions are values: every \<^verbatim>\<open>raise\<close> of the source is an \<open>Inl\<close>.\<close>

datatype pyerr =
    Exception string
  | TypeError
  | KeyError
  | ValueError
  | AttributeError
  | OverflowError
  | RecursionError

definition bind_err :: "pyerr + 'a \<Rightarrow> ('a \<Rightarrow> pyerr + 'b) \<Rightarrow> pyerr + 'b" where
  "bind_err m f = (case m of Inl e \<Rightarrow> Inl e | Inr x \<Rightarrow> f x)"

text \<open>The submission mapping (\<^verbatim>\<open>task_input\<close>, \<^verbatim>\<open>input_data\<close>): a dict keyed by
  composite box id.\<close>

type_synonym submission = "string \<rightharpoonup> pyval"

definition dict_getitem :: "submission \<Rightarrow> string \<Rightarrow> pyerr + pyval" where
  "dict_getitem d k = (case d k of None \<Rightarrow> Inl KeyError | Some v \<Rightarrow> Inr v)"

text \<open>\<^verbatim>\<open>bool(x)\<close>, as \<^verbatim>\<open>if x\<close> and \<^verbatim>\<open>x or y\<close> use it.\<close>

fun py_truthy :: "pyval \<Rightarrow> bool" where
  "py_truthy PNone = False"
| "py_truthy (PBool b) = b"
| "py_truthy (PInt n) = (n \<noteq> 0)"
| "py_truthy (PFloat f) = (f \<noteq> FFinite 0)"
| "py_truthy (PStr s) = (s \<noteq> [])"
| "py_truthy (PBytes s) = (s \<noteq> [])"
| "py_truthy (PList xs) = (xs \<noteq> [])"
| "py_truthy (PDict kvs) = (kvs \<noteq> [])"
| "py_truthy (PObject attrs) = True"

definition py_or :: "pyval \<Rightarrow> pyval \<Rightarrow> pyval" where
  "py_or a b = (if py_truthy a then a else b)"

text \<open>\<^verbatim>\<open>len(x)\<close>: a TypeError for a value without a length.\<close>

fun py_len :: "pyval \<Rightarrow> pyerr + nat" where
  "py_len (PStr s) = Inr (length s)"
| "py_len (PBytes s) = Inr (length s)"
| "py_len (PList xs) = Inr (length xs)"
| "py_len (PDict kvs) = Inr (length kvs)"
| "py_len PNone = Inl TypeError"
| "py_len (PBool b) = Inl TypeError"
| "py_len (PInt n) = Inl TypeError"
| "py_len (PFloat f) = Inl TypeError"
| "py_len (PObject attrs) = Inl TypeError"

text \<open>\<^verbatim>\<open>k in x\<close> for a string \<open>k\<close>: key membership in a dict, substring test in a
  str, element test in a list, a TypeError elsewhere.\<close>

fun py_contains :: "pyval \<Rightarrow> string \<Rightarrow> pyerr + bool" where
  "py_contains (PDict kvs) k = Inr (k \<in> set (map fst kvs))"
| "py_contains (PStr s) k = Inr (sublist k s)"
| "py_contains (PList xs) k = Inr (PStr k \<in> set xs)"
| "py_contains PNone k = Inl TypeError"
| "py_contains (PBool b) k = Inl TypeError"
| "py_contains (PInt n) k = Inl TypeError"
| "py_contains (PFloat f) k = Inl TypeError"
| "py_contains (PBytes s) k = Inl TypeError"
| "py_contains (PObject attrs) k = Inl TypeError"

text \<open>\<^verbatim>\<open>x[k]\<close> for a string \<open>k\<close>: only a dict can be indexed by a string.\<close>

fun py_getitem :: "pyval \<Rightarrow> string \<Rightarrow> pyerr + pyval" where
  "py_getitem (PDict kvs) k = (case map_of kvs k of None \<Rightarrow> Inl KeyError | Some v \<Rightarrow> Inr v)"
| "py_getitem PNone k = Inl TypeError"
| "py_getitem (PBool b) k = Inl TypeError"
| "py_getitem (PInt n) k = Inl TypeError"
| "py_getitem (PFloat f) k = Inl TypeError"
| "py_getitem (PStr s) k = Inl TypeError"
| "py_getitem (PBytes s) k = Inl TypeError"
| "py_getitem (PList xs) k = Inl TypeError"
| "py_getitem (PObject attrs) k = Inl TypeError"

text \<open>\<^verbatim>\<open>x.get(k, d)\<close>: only a dict has the method.\<close>

fun py_get :: "pyval \<Rightarrow> string \<Rightarrow> pyval \<Rightarrow> pyerr + pyval" where
  "py_get (PDict kvs) k d = Inr (case map_of kvs k of None \<Rightarrow> d | Some v \<Rightarrow> v)"
| "py_get PNone k d = Inl AttributeError"
| "py_get (PBool b) k d = Inl AttributeError"
| "py_get (PInt n) k d = Inl AttributeError"
| "py_get (PFloat f) k d = Inl AttributeError"
| "py_get (PStr s) k d = Inl AttributeError"
| "py_get (PBytes s) k d = Inl AttributeError"
| "py_get (PList xs) k d = Inl AttributeError"
| "py_get (PObject attrs) k d = Inl AttributeError"

text \<open>\<^verbatim>\<open>x.items()\<close>.\<close>

fun py_items :: "pyval \<Rightarrow> pyerr + (string \<times> pyval) list" where
  "py_items (PDict kvs) = Inr kvs"
| "py_items PNone = Inl AttributeError"
| "py_items (PBool b) = Inl AttributeError"
| "py_items (PInt n) = Inl AttributeError"
| "py_items (PFloat f) = Inl AttributeError"
| "py_items (PStr s) = Inl AttributeError"
| "py_items (PBytes s) = Inl AttributeError"
| "py_items (PList xs) = Inl AttributeError"
| "py_items (PObject attrs) = Inl AttributeError"

text \<open>\<^verbatim>\<open>x.filename\<close> and \<^verbatim>\<open>x.value\<close>: the built-in types have neither attribute.\<close>

fun py_getattr :: "pyval \<Rightarrow> string \<Rightarrow> pyerr + pyval" where
  "py_getattr (PObject attrs) a = (case map_of attrs a of None \<Rightarrow> Inl AttributeError | Some v \<Rightarrow> Inr v)"
| "py_getattr PNone a = Inl AttributeError"
| "py_getattr (PBool b) a = Inl AttributeError"
| "py_getattr (PInt n) a = Inl AttributeError"
| "py_getattr (PFloat f) a = Inl AttributeError"
| "py_getattr (PStr s) a = Inl AttributeError"
| "py_getattr (PBytes s) a = Inl AttributeError"
| "py_getattr (PList xs) a = Inl AttributeError"
| "py_getattr (PDict kvs) a = Inl AttributeError"

text \<open>\<^verbatim>\<open>tuple(x)\<close>: the elements of a list, the characters of a str, the byte values
  of a bytes, the keys of a dict.\<close>

fun py_tuple :: "pyval \<Rightarrow> pyerr + pyval list" where
  "py_tuple (PList xs) = Inr xs"
| "py_tuple (PStr s) = Inr (map (\<lambda>c. PStr [c]) s)"
| "py_tuple (PBytes s) = Inr (map (\<lambda>c. PInt (int (of_char c))) s)"
| "py_tuple (PDict kvs) = Inr (map (\<lambda>kv. PStr (fst kv)) kvs)"
| "py_tuple PNone = Inl TypeError"
| "py_tuple (PBool b) = Inl TypeError"
| "py_tuple (PInt n) = Inl TypeError"
| "py_tuple (PFloat f) = Inl TypeError"
| "py_tuple (PObject attrs) = Inl TypeError"

text \<open>\<^verbatim>\<open>s.endswith(t)\<close> for a tuple \<open>t\<close>: the elements are tried in order, the
  first that is a suffix answers True, and an element of the wrong type met before that
  raises a TypeError. Only str and bytes have the method.\<close>

fun str_endswith :: "string \<Rightarrow> pyval list \<Rightarrow> pyerr + bool" where
  "str_endswith s [] = Inr False"
| "str_endswith s (PStr e # es) = (if suffix e s then Inr True else str_endswith s es)"
| "str_endswith s (x # es) = Inl TypeError"

fun bytes_endswith :: "string \<Rightarrow> pyval list \<Rightarrow> pyerr + bool" where
  "bytes_endswith s [] = Inr False"
| "bytes_endswith s (PBytes e # es) = (if suffix e s then Inr True else bytes_endswith s es)"
| "bytes_endswith s (x # es) = Inl TypeError"

fun py_endswith :: "pyval \<Rightarrow> pyval list \<Rightarrow> pyerr + bool" where
  "py_endswith (PStr s) t = str_endswith s t"
| "py_endswith (PBytes s) t = bytes_endswith s t"
| "py_endswith PNone t = Inl AttributeError"
| "py_endswith (PBool b) t = Inl AttributeError"
| "py_endswith (PInt n) t = Inl AttributeError"
| "py_endswith (PFloat f) t = Inl AttributeError"
| "py_endswith (PList xs) t = Inl AttributeError"
| "py_endswith (PDict kvs) t = Inl AttributeError"
| "py_endswith (PObject attrs) t = Inl AttributeError"

text \<open>\<^verbatim>\<open>n > x\<close> for an int \<open>n\<close> that is a size: numbers compare exactly, anything
  else raises a TypeError.\<close>

fun py_gt :: "nat \<Rightarrow> pyval \<Rightarrow> pyerr + bool" where
  "py_gt n (PInt m) = Inr (int n > m)"
| "py_gt n (PBool b) = Inr (int n > (if b then 1 else 0))"
| "py_gt n (PFloat FNan) = Inr False"
| "py_gt n (PFloat (FInf positive)) = Inr (\<not> positive)"
| "py_gt n (PFloat (FFinite r)) = Inr (of_nat n > r)"
| "py_gt n PNone = Inl TypeError"
| "py_gt n (PStr s) = Inl TypeError"
| "py_gt n (PBytes s) = Inl TypeError"
| "py_gt n (PList xs) = Inl TypeError"
| "py_gt n (PDict kvs) = Inl TypeError"
| "py_gt n (PObject attrs) = Inl TypeError"

subsection \<open>Parsing numbers: \<^verbatim>\<open>int(x)\<close> and \<^verbatim>\<open>float(x)\<close>\<close>

text \<open>
  The source calls \<^verbatim>\<open>int\<close> and \<^verbatim>\<open>float\<close> for their exception only, so the model
  returns no number. The grammar is the language reference's:
  \<^verbatim>\<open>digitpart ::= digit (["_"] digit)*\<close>, an integer is \<^verbatim>\<open>[sign] digitpart\<close>, a float is
  \<^verbatim>\<open>[sign] (floatnumber | "inf" | "infinity" | "nan")\<close> in any letter case, both between
  optional white space. In a str the white space is the ASCII one and the two spaces of
  the range above it (NEL 133, NBSP 160); in a bytes only the ASCII one. Underscores between
  digits are read as Python 3.6 and later read them. The interpreter's optional limit on
  the number of digits of an integer literal is left out.
\<close>

definition is_digit :: "char \<Rightarrow> bool" where
  "is_digit c = (c \<in> set ''0123456789'')"

definition ascii_space :: "char \<Rightarrow> bool" where
  "ascii_space c = (of_char c \<in> set [9, 10, 11, 12, 13, 32 :: nat])"

definition str_space :: "char \<Rightarrow> bool" where
  "str_space c = (ascii_space c \<or> of_char c \<in> set [133, 160 :: nat])"

definition strip :: "(char \<Rightarrow> bool) \<Rightarrow> string \<Rightarrow> string" where
  "strip sp s = rev (dropWhile sp (rev (dropWhile sp s)))"

definition strip_sign :: "string \<Rightarrow> string" where
  "strip_sign s = (case s of [] \<Rightarrow> [] | c # cs \<Rightarrow> if c = CHR ''+'' \<or> c = CHR ''-'' then cs else s)"

fun digitpart_rest :: "string \<Rightarrow> bool" where
  "digitpart_rest [] = True"
| "digitpart_rest [c] = is_digit c"
| "digitpart_rest (c # d # cs) =
     (if is_digit c then digitpart_rest (d # cs)
      else c = CHR ''_'' \<and> is_digit d \<and> digitpart_rest cs)"

definition digitpart :: "string \<Rightarrow> bool" where
  "digitpart s = (case s of [] \<Rightarrow> False | c # cs \<Rightarrow> is_digit c \<and> digitpart_rest cs)"

definition int_literal :: "(char \<Rightarrow> bool) \<Rightarrow> string \<Rightarrow> bool" where
  "int_literal sp s = digitpart (strip_sign (strip sp s))"

definition number :: "string \<Rightarrow> bool" where
  "number s =
     (let ip = takeWhile (\<lambda>c. c \<noteq> CHR ''.'') s; r = dropWhile (\<lambda>c. c \<noteq> CHR ''.'') s
      in case r of
           [] \<Rightarrow> digitpart ip
         | dot # fp \<Rightarrow> if fp = [] then digitpart ip else (ip = [] \<or> digitpart ip) \<and> digitpart fp)"

definition is_e :: "char \<Rightarrow> bool" where
  "is_e c = (c = CHR ''e'' \<or> c = CHR ''E'')"

definition floatnumber :: "string \<Rightarrow> bool" where
  "floatnumber s =
     (let m = takeWhile (\<lambda>c. \<not> is_e c) s; r = dropWhile (\<lambda>c. \<not> is_e c) s
      in case r of
           [] \<Rightarrow> number m
         | e # ex \<Rightarrow> number m \<and> digitpart (strip_sign ex))"

definition lower_ascii :: "char \<Rightarrow> char" where
  "lower_ascii c =
     (if c \<in> set ''ABCDEFGHIJKLMNOPQRSTUVWXYZ'' then char_of (of_char c + (32 :: nat)) else c)"

definition float_literal :: "(char \<Rightarrow> bool) \<Rightarrow> string \<Rightarrow> bool" where
  "float_literal sp s =
     (let u = strip_sign (strip sp s)
      in floatnumber u \<or> map lower_ascii u \<in> set [''inf'', ''infinity'', ''nan''])"

fun py_int :: "pyval \<Rightarrow> pyerr + unit" where
  "py_int (PStr s) = (if int_literal str_space s then Inr () else Inl ValueError)"
| "py_int (PBytes s) = (if int_literal ascii_space s then Inr () else Inl ValueError)"
| "py_int (PInt n) = Inr ()"
| "py_int (PBool b) = Inr ()"
| "py_int (PFloat (FFinite r)) = Inr ()"
| "py_int (PFloat FNan) = Inl ValueError"
| "py_int (PFloat (FInf positive)) = Inl OverflowError"
| "py_int PNone = Inl TypeError"
| "py_int (PList xs) = Inl TypeError"
| "py_int (PDict kvs) = Inl TypeError"
| "py_int (PObject attrs) = Inl TypeError"

text \<open>An int converts to a float unless it rounds past the largest double.\<close>

fun py_float :: "pyval \<Rightarrow> pyerr + unit" where
  "py_float (PStr s) = (if float_literal str_space s then Inr () else Inl ValueError)"
| "py_float (PBytes s) = (if float_literal ascii_space s then Inr () else Inl ValueError)"
| "py_float (PInt n) = (if \<bar>n\<bar> < 2 ^ 1024 - 2 ^ 970 then Inr () else Inl OverflowError)"
| "py_float (PBool b) = Inr ()"
| "py_float (PFloat f) = Inr ()"
| "py_float PNone = Inl TypeError"
| "py_float (PList xs) = Inl TypeError"
| "py_float (PDict kvs) = Inl TypeError"
| "py_float (PObject attrs) = Inl TypeError"

section \<open>Boxes\<close>

text \<open>
  The four box classes, each with the fields its constructor sets. The back-reference to
  the owning problem is read only for the problem's id, so the box stores that id. A
  displayable box has the fields of the plain one. \<open>max_chars\<close> and \<open>lines\<close> hold an
  int; the constructor also lets \<^verbatim>\<open>True\<close> through (a bool is an int in Python), which
  then counts as 1 in every comparison and is stored as 1.
\<close>

datatype box =
    TextBox (problem_id: string) (box_id: string) (text_content: pyval)
  | FileBox (problem_id: string) (box_id: string) (allowed_exts: pyval) (max_size: pyval)
  | InputBox (problem_id: string) (box_id: string) (input_type: string)
      (default_value: string) (optional: pyval) (max_chars: int)
  | MultilineBox (problem_id: string) (box_id: string) (max_chars: int) (optional: pyval)
      (lines: int) (language: string)

definition get_complete_id :: "box \<Rightarrow> string" where
  "get_complete_id self =
     (let pid = problem_id self; bid = box_id self
      in if bid \<noteq> '''' then pid @ ''/'' @ bid else pid)"

subsection \<open>Construction\<close>

text \<open>
  Modelled from the spec: \<^verbatim>\<open>id_checker\<close> is imported from the host
  (\<^verbatim>\<open>inginious.common.base\<close>) and is not among the sources. The spec gives it as the
  identifier-charset check: one or more letters, digits, underscores or dashes.
\<close>

definition id_char :: "char \<Rightarrow> bool" where
  "id_char c =
     (c \<in> set ''abcdefghijklmnopqrstuvwxyzABCDEFGHIJKLMNOPQRSTUVWXYZ0123456789-_'')"

definition id_checker :: "string \<Rightarrow> bool" where
  "id_checker s = (s \<noteq> [] \<and> list_all id_char s)"

definition BasicBox_init :: "string \<Rightarrow> pyerr + unit" where
  "BasicBox_init boxid =
     (if \<not> id_checker boxid \<and> \<not> boxid = ''''
      then Inl (Exception (''Invalid box _id: '' @ boxid))
      else Inr ())"

definition TextBox_init :: "string \<Rightarrow> string \<Rightarrow> pyval \<Rightarrow> pyerr + box" where
  "TextBox_init pid boxid boxData =
     bind_err (BasicBox_init boxid) (\<lambda>u.
     bind_err (py_contains boxData ''content'') (\<lambda>present.
       if \<not> present
       then Inl (Exception (''Box _id '' @ boxid @ '' with type=text do not have content.''))
       else bind_err (py_getitem boxData ''content'') (\<lambda>c. Inr (TextBox pid boxid c))))"

definition FileBox_init :: "string \<Rightarrow> string \<Rightarrow> pyval \<Rightarrow> pyerr + box" where
  "FileBox_init pid boxid boxData =
     bind_err (BasicBox_init boxid) (\<lambda>u.
     bind_err (py_get boxData ''allowed_exts'' PNone) (\<lambda>exts.
     bind_err (py_get boxData ''max_size'' PNone) (\<lambda>msize.
       Inr (FileBox pid boxid exts msize))))"

text \<open>
  The constructors of the input and the multiline box read \<^verbatim>\<open>maxChars\<close> and
  \<^verbatim>\<open>lines\<close> by the same three-way test, written out once here: the field is present, an
  int and positive; or present and anything else (an error naming the field and the box);
  or absent (the default).
\<close>

definition positive_int_field :: "pyval \<Rightarrow> string \<Rightarrow> int \<Rightarrow> string \<Rightarrow> pyerr + int" where
  "positive_int_field boxData field dflt boxid =
     bind_err (py_contains boxData field) (\<lambda>present.
       if \<not> present then Inr dflt
       else bind_err (py_getitem boxData field) (\<lambda>v.
         case v of
           PInt n \<Rightarrow> if n > 0 then Inr n
                     else Inl (Exception (''Invalid '' @ field @ '' value in box '' @ boxid))
         | PBool b \<Rightarrow> if b then Inr 1
                      else Inl (Exception (''Invalid '' @ field @ '' value in box '' @ boxid))
         | other \<Rightarrow> Inl (Exception (''Invalid '' @ field @ '' value in box '' @ boxid))))"

definition InputBox_init :: "string \<Rightarrow> string \<Rightarrow> pyval \<Rightarrow> pyerr + box" where
  "InputBox_init pid boxid boxData =
     bind_err (BasicBox_init boxid) (\<lambda>u.
     bind_err (py_getitem boxData ''type'') (\<lambda>t.
     bind_err
       (if t = PStr ''input-text'' then Inr (''text'', '''')
        else if t = PStr ''input-integer'' then Inr (''integer'', ''0'')
        else if t = PStr ''input-decimal'' then Inr (''decimal'', ''0.0'')
        else (case t of
                PStr ty \<Rightarrow> Inl (Exception (''No such box type '' @ ty @ '' in box '' @ boxid))
              | other \<Rightarrow> Inl TypeError)) (\<lambda>subtype.
     bind_err (py_get boxData ''optional'' (PBool False)) (\<lambda>opt.
     bind_err (positive_int_field boxData ''maxChars'' 0 boxid) (\<lambda>mc.
       Inr (InputBox pid boxid (fst subtype) (snd subtype) opt mc))))))"

text \<open>
  \<^verbatim>\<open>re.match(r'[a-z0-9\-_\.]+$', s, re.IGNORECASE)\<close>: one or more characters of the
  class from the start, then the end of the string; \<^verbatim>\<open>$\<close> also matches before a
  newline that ends the string.
\<close>

definition language_char :: "char \<Rightarrow> bool" where
  "language_char c =
     (c \<in> set ''abcdefghijklmnopqrstuvwxyzABCDEFGHIJKLMNOPQRSTUVWXYZ0123456789-_.'')"

definition language_match :: "string \<Rightarrow> bool" where
  "language_match s =
     (let w = takeWhile language_char s; r = dropWhile language_char s
      in w \<noteq> [] \<and> (r = [] \<or> r = [CHR 0x0A]))"

definition MultilineBox_init :: "string \<Rightarrow> string \<Rightarrow> pyval \<Rightarrow> pyerr + box" where
  "MultilineBox_init pid boxid boxData =
     bind_err (BasicBox_init boxid) (\<lambda>u.
     bind_err (positive_int_field boxData ''maxChars'' 0 boxid) (\<lambda>mc.
     bind_err (py_get boxData ''optional'' (PBool False)) (\<lambda>opt.
     bind_err (positive_int_field boxData ''lines'' 8 boxid) (\<lambda>nlines.
     bind_err (py_get boxData ''language'' (PStr '''')) (\<lambda>lang.
       case lang of
         PStr s \<Rightarrow>
           if language_match s then Inr (MultilineBox pid boxid mc opt nlines s)
           else if s \<noteq> [] then Inl (Exception (''Invalid language '' @ s))
           else Inr (MultilineBox pid boxid mc opt nlines ''plain'')
       | other \<Rightarrow> Inl TypeError)))))"

text \<open>The registry \<^verbatim>\<open>_box_types\<close>: type tag to constructor. The displayable problem
  registers the displayable classes under the same tags; their constructors only call
  the ones below.\<close>

definition box_types :: "(string \<times> (string \<Rightarrow> string \<Rightarrow> pyval \<Rightarrow> pyerr + box)) list" where
  "box_types =
     [(''input-text'', InputBox_init), (''input-decimal'', InputBox_init),
      (''input-integer'', InputBox_init), (''multiline'', MultilineBox_init),
      (''text'', TextBox_init), (''file'', FileBox_init)]"

text \<open>A type that is not a str is in no registry, and the message that names it cannot
  be built: a TypeError.\<close>

definition create_box :: "string \<Rightarrow> string \<Rightarrow> pyval \<Rightarrow> pyerr + box" where
  "create_box pid boxid box_content =
     (if \<not> id_checker boxid \<and> \<not> boxid = ''''
      then Inl (Exception (''Invalid box _id '' @ boxid))
      else bind_err (py_contains box_content ''type'') (\<lambda>present.
        if \<not> present then Inl (Exception (''Box '' @ boxid @ '' does not have a type''))
        else bind_err (py_getitem box_content ''type'') (\<lambda>t.
          case t of
            PStr ty \<Rightarrow>
              (case map_of box_types ty of
                 None \<Rightarrow> Inl (Exception (''Unknown box type '' @ ty @ '' for box _id '' @ boxid))
               | Some init \<Rightarrow> init pid boxid box_content)
          | other \<Rightarrow> Inl TypeError)))"

text \<open>The loop of \<^verbatim>\<open>_init_boxes\<close> over the items of the box mapping; \<open>acc\<close> is
  \<^verbatim>\<open>self._boxes\<close>.\<close>

fun init_boxes_loop :: "string \<Rightarrow> (string \<times> pyval) list \<Rightarrow> box list \<Rightarrow> pyerr + box list" where
  "init_boxes_loop pid [] acc = Inr acc"
| "init_boxes_loop pid ((boxid, box_content) # rest) acc =
     (if boxid = '''' then Inl (Exception ''Empty box ids are not allowed'')
      else bind_err (create_box pid boxid box_content) (\<lambda>b.
             init_boxes_loop pid rest (acc @ [b])))"

definition init_boxes :: "string \<Rightarrow> pyval \<Rightarrow> pyerr + box list" where
  "init_boxes pid content =
     bind_err (py_contains content ''boxes'') (\<lambda>present.
       if present
       then bind_err (py_getitem content ''boxes'') (\<lambda>bs.
            bind_err (py_items bs) (\<lambda>items. init_boxes_loop pid items []))
       else Inr [])"

text \<open>
  The problem, as the plugin reads it: its id and its boxes. The constructor of the host's
  base class \<^verbatim>\<open>Problem\<close>, which both problem classes call first, is not among the
  sources: it is the parameter \<open>Problem_init\<close> of the model, and may raise; when it does,
  no box is created.

  Modelled from the spec: the host's \<^verbatim>\<open>get_id\<close> is not among the sources either. The
  spec gives the identifier of a problem as the one its boxes read to build their composite
  ids, so the problem keeps the \<open>problemid\<close> it was constructed with.
\<close>

record problem =
  get_id :: string
  get_boxes :: "box list"

definition CustomProblem_init ::
  "(string \<Rightarrow> pyval \<Rightarrow> pyerr + unit) \<Rightarrow> string \<Rightarrow> pyval \<Rightarrow> pyerr + problem" where
  "CustomProblem_init Problem_init problemid content =
     bind_err (Problem_init problemid content) (\<lambda>u.
     bind_err (init_boxes problemid content) (\<lambda>bs.
       Inr \<lparr>get_id = problemid, get_boxes = bs\<rparr>))"

section \<open>Validation of a submission\<close>

text \<open>
  \<^verbatim>\<open>input_is_consistent\<close> returns a bool and may rewrite the submission mapping in
  place, so the model returns the pair of the verdict and the mapping as the call leaves
  it; an exception that leaves the method is an \<open>Inl\<close>. A \<^verbatim>\<open>try ... except: return False\<close>
  is a case split that turns every \<open>Inl\<close> of its body into the verdict False.
\<close>

definition BasicBox_input_is_consistent :: "box \<Rightarrow> submission \<Rightarrow> bool" where
  "BasicBox_input_is_consistent self task_input =
     (task_input (get_complete_id self) \<noteq> None)"

definition TextBox_input_is_consistent ::
  "box \<Rightarrow> submission \<Rightarrow> pyval \<Rightarrow> pyval \<Rightarrow> pyerr + bool \<times> submission" where
  "TextBox_input_is_consistent self task_input default_allowed_extension default_max_size =
     Inr (True, task_input)"

text \<open>
  \<^verbatim>\<open>sys.getsizeof\<close> is the interpreter's: the number of bytes the object takes in
  memory. It is a parameter of the model, \<open>getsizeof\<close>. The body of the \<^verbatim>\<open>try\<close> of
  the file box is \<open>FileBox_checks\<close>; its value is whether both checks passed. Every
  exception of the body ends in the same \<^verbatim>\<open>return False\<close> and the body writes nothing,
  so which of two failing subexpressions Python reaches first does not show.
\<close>

definition FileBox_checks ::
  "(pyval \<Rightarrow> nat) \<Rightarrow> box \<Rightarrow> submission \<Rightarrow> pyval \<Rightarrow> pyval \<Rightarrow> pyerr + bool" where
  "FileBox_checks getsizeof self taskInput default_allowed_extension default_max_size =
     bind_err (dict_getitem taskInput (get_complete_id self)) (\<lambda>v.
     bind_err (py_getitem v ''filename'') (\<lambda>filename.
     bind_err (py_tuple (py_or (allowed_exts self) default_allowed_extension)) (\<lambda>exts.
     bind_err (py_endswith filename exts) (\<lambda>ends.
       if \<not> ends then Inr False
       else
         bind_err (dict_getitem taskInput (get_complete_id self)) (\<lambda>v2.
         bind_err (py_getitem v2 ''value'') (\<lambda>val.
         bind_err (py_gt (getsizeof val) (py_or (max_size self) default_max_size)) (\<lambda>too_big.
           if too_big then Inr False else Inr True)))))))"

definition FileBox_input_is_consistent ::
  "(pyval \<Rightarrow> nat) \<Rightarrow> box \<Rightarrow> submission \<Rightarrow> pyval \<Rightarrow> pyval \<Rightarrow> pyerr + bool \<times> submission" where
  "FileBox_input_is_consistent getsizeof self taskInput default_allowed_extension default_max_size =
     (if \<not> BasicBox_input_is_consistent self taskInput then Inr (False, taskInput)
      else
        (case FileBox_checks getsizeof self taskInput default_allowed_extension default_max_size of
           Inl e \<Rightarrow> Inr (False, taskInput)
         | Inr ok \<Rightarrow> Inr (ok, taskInput)))"

text \<open>The test \<^verbatim>\<open>self._max_chars != 0 and len(taskInput[id]) > self._max_chars\<close>, which
  the input and the multiline box both make outside any \<^verbatim>\<open>try\<close>.\<close>

definition exceeds_max_chars :: "box \<Rightarrow> submission \<Rightarrow> pyerr + bool" where
  "exceeds_max_chars self taskInput =
     (if max_chars self \<noteq> 0
      then bind_err (dict_getitem taskInput (get_complete_id self)) (\<lambda>v.
           bind_err (py_len v) (\<lambda>n. Inr (int n > max_chars self)))
      else Inr False)"

text \<open>The \<^verbatim>\<open>try\<close> of the input box around the empty-answer test: \<open>Some\<close> of the
  mapping as the block leaves it, or \<open>None\<close> where it returns False.\<close>

definition InputBox_empty_check :: "box \<Rightarrow> submission \<Rightarrow> pyerr + submission option" where
  "InputBox_empty_check self taskInput =
     bind_err (dict_getitem taskInput (get_complete_id self)) (\<lambda>v.
     bind_err (py_len v) (\<lambda>n.
       if n = 0
       then (if py_truthy (optional self)
             then Inr (Some (taskInput(get_complete_id self \<mapsto> PStr (default_value self))))
             else Inr None)
       else Inr (Some taskInput)))"

definition InputBox_input_is_consistent ::
  "box \<Rightarrow> submission \<Rightarrow> pyval \<Rightarrow> pyval \<Rightarrow> pyerr + bool \<times> submission" where
  "InputBox_input_is_consistent self taskInput default_allowed_extension default_max_size =
     (if \<not> BasicBox_input_is_consistent self taskInput then Inr (False, taskInput)
      else
        bind_err (exceeds_max_chars self taskInput) (\<lambda>too_long.
          if too_long then Inr (False, taskInput)
          else
            (case InputBox_empty_check self taskInput of
               Inl e \<Rightarrow> Inr (False, taskInput)
             | Inr None \<Rightarrow> Inr (False, taskInput)
             | Inr (Some taskInput1) \<Rightarrow>
                 if input_type self = ''integer'' \<and>
                    isl (bind_err (dict_getitem taskInput1 (get_complete_id self)) py_int)
                 then Inr (False, taskInput1)
                 else if input_type self = ''decimal'' \<and>
                    isl (bind_err (dict_getitem taskInput1 (get_complete_id self)) py_float)
                 then Inr (False, taskInput1)
                 else Inr (True, taskInput1))))"

definition MultilineBox_input_is_consistent ::
  "box \<Rightarrow> submission \<Rightarrow> pyval \<Rightarrow> pyval \<Rightarrow> pyerr + bool \<times> submission" where
  "MultilineBox_input_is_consistent self taskInput default_allowed_extension default_max_size =
     (if \<not> BasicBox_input_is_consistent self taskInput then Inr (False, taskInput)
      else
        bind_err (exceeds_max_chars self taskInput) (\<lambda>too_long.
          if too_long then Inr (False, taskInput)
          else
            bind_err (dict_getitem taskInput (get_complete_id self)) (\<lambda>v.
            bind_err (py_len v) (\<lambda>n.
              if n = 0
              then (if py_truthy (optional self)
                    then Inr (True, taskInput(get_complete_id self \<mapsto> PStr ''''))
                    else Inr (False, taskInput))
              else Inr (True, taskInput)))))"

text \<open>Method dispatch on the class of the box.\<close>

fun input_is_consistent ::
  "(pyval \<Rightarrow> nat) \<Rightarrow> box \<Rightarrow> submission \<Rightarrow> pyval \<Rightarrow> pyval \<Rightarrow> pyerr + bool \<times> submission" where
  "input_is_consistent getsizeof (TextBox pid bid c) ti dext dmax =
     TextBox_input_is_consistent (TextBox pid bid c) ti dext dmax"
| "input_is_consistent getsizeof (FileBox pid bid exts msize) ti dext dmax =
     FileBox_input_is_consistent getsizeof (FileBox pid bid exts msize) ti dext dmax"
| "input_is_consistent getsizeof (InputBox pid bid it dv opt mc) ti dext dmax =
     InputBox_input_is_consistent (InputBox pid bid it dv opt mc) ti dext dmax"
| "input_is_consistent getsizeof (MultilineBox pid bid mc opt nlines lang) ti dext dmax =
     MultilineBox_input_is_consistent (MultilineBox pid bid mc opt nlines lang) ti dext dmax"

text \<open>The loop of \<^verbatim>\<open>CustomProblem.input_is_consistent\<close> over \<^verbatim>\<open>self._boxes\<close>.\<close>

fun boxes_input_is_consistent ::
  "(pyval \<Rightarrow> nat) \<Rightarrow> box list \<Rightarrow> submission \<Rightarrow> pyval \<Rightarrow> pyval \<Rightarrow> pyerr + bool \<times> submission" where
  "boxes_input_is_consistent getsizeof [] task_input dext dmax = Inr (True, task_input)"
| "boxes_input_is_consistent getsizeof (box # rest) task_input dext dmax =
     bind_err (input_is_consistent getsizeof box task_input dext dmax) (\<lambda>r.
       if \<not> fst r then Inr (False, snd r)
       else boxes_input_is_consistent getsizeof rest (snd r) dext dmax)"

definition CustomProblem_input_is_consistent ::
  "(pyval \<Rightarrow> nat) \<Rightarrow> problem \<Rightarrow> submission \<Rightarrow> pyval \<Rightarrow> pyval \<Rightarrow> pyerr + bool \<times> submission" where
  "CustomProblem_input_is_consistent getsizeof self task_input default_allowed_extension default_max_size =
     boxes_input_is_consistent getsizeof (get_boxes self) task_input
       default_allowed_extension default_max_size"

section \<open>Adapting a submission for the backend\<close>

definition DisplayableBox_adapt_input_for_backend :: "box \<Rightarrow> submission \<Rightarrow> submission" where
  "DisplayableBox_adapt_input_for_backend self input_data = input_data"

definition DisplayableFileBox_adapt_input_for_backend :: "box \<Rightarrow> submission \<Rightarrow> submission" where
  "DisplayableFileBox_adapt_input_for_backend self input_data =
     (case bind_err (dict_getitem input_data (get_complete_id self)) (\<lambda>v.
           bind_err (py_getattr v ''filename'') (\<lambda>filename.
           bind_err (dict_getitem input_data (get_complete_id self)) (\<lambda>v2.
           bind_err (py_getattr v2 ''value'') (\<lambda>val.
             Inr (PDict [(''filename'', filename), (''value'', val)]))))) of
        Inl e \<Rightarrow> input_data(get_complete_id self \<mapsto> PDict [])
      | Inr r \<Rightarrow> input_data(get_complete_id self \<mapsto> r))"

text \<open>Method dispatch: only the file box overrides the method of \<^verbatim>\<open>DisplayableBox\<close>.\<close>

fun adapt_input_for_backend :: "box \<Rightarrow> submission \<Rightarrow> submission" where
  "adapt_input_for_backend (FileBox pid bid exts msize) input_data =
     DisplayableFileBox_adapt_input_for_backend (FileBox pid bid exts msize) input_data"
| "adapt_input_for_backend (TextBox pid bid c) input_data =
     DisplayableBox_adapt_input_for_backend (TextBox pid bid c) input_data"
| "adapt_input_for_backend (InputBox pid bid it dv opt mc) input_data =
     DisplayableBox_adapt_input_for_backend (InputBox pid bid it dv opt mc) input_data"
| "adapt_input_for_backend (MultilineBox pid bid mc opt nlines lang) input_data =
     DisplayableBox_adapt_input_for_backend (MultilineBox pid bid mc opt nlines lang) input_data"

definition DisplayableCustomProblem_adapt_input_for_backend ::
  "problem \<Rightarrow> submission \<Rightarrow> submission" where
  "DisplayableCustomProblem_adapt_input_for_backend self input_data =
     fold adapt_input_for_backend (get_boxes self) input_data"

section \<open>Parsing the task definition\<close>




section \<open>Properties\<close>

subsection \<open>Sequencing and evaluation lemmas\<close>

lemma bind_err_Inl [simp]: "bind_err (Inl e) f = Inl e"
  by (simp add: bind_err_def)

lemma bind_err_Inr [simp]: "bind_err (Inr x) f = f x"
  by (simp add: bind_err_def)

lemma bind_err_InrE:
  assumes "bind_err m f = Inr y"
  obtains x where "m = Inr x" and "f x = Inr y"
  using assms by (cases m) simp_all

lemma int_literal_0: "int_literal str_space ''0''"
  by (simp add: int_literal_def strip_def str_space_def ascii_space_def strip_sign_def
      digitpart_def is_digit_def)

lemma float_literal_0_0: "float_literal str_space ''0.0''"
  by (simp add: float_literal_def floatnumber_def number_def is_e_def strip_def str_space_def
      ascii_space_def strip_sign_def digitpart_def is_digit_def)

lemma int_literal_12_5: "\<not> int_literal str_space ''12.5''"
  by (simp add: int_literal_def strip_def str_space_def ascii_space_def strip_sign_def
      digitpart_def is_digit_def)

subsection \<open>What a successful construction says about the box\<close>

lemma positive_int_field_nonneg:
  assumes "positive_int_field boxData field dflt boxid = Inr n" and "0 \<le> dflt"
  shows "0 \<le> n"
proof (cases "py_contains boxData field")
  case (Inl e)
  with assms show ?thesis by (simp add: positive_int_field_def)
next
  case (Inr present)
  show ?thesis
  proof (cases present)
    case False
    with Inr assms show ?thesis by (simp add: positive_int_field_def)
  next
    case True
    show ?thesis
    proof (cases "py_getitem boxData field")
      case (Inl e)
      with Inr True assms show ?thesis by (simp add: positive_int_field_def)
    next
      case v: (Inr v)
      with Inr True assms show ?thesis
        by (cases v) (simp_all add: positive_int_field_def split: if_splits)
    qed
  qed
qed

lemma InputBox_init_Inr:
  assumes "InputBox_init pid boxid boxData = Inr self"
  obtains ty it dv opt mc where "py_getitem boxData ''type'' = Inr (PStr ty)"
    and "py_get boxData ''optional'' (PBool False) = Inr opt"
    and "0 \<le> mc"
    and "self = InputBox pid boxid it dv opt mc"
    and "(ty, it, dv) \<in> set [(''input-text'', ''text'', ''''),
           (''input-integer'', ''integer'', ''0''), (''input-decimal'', ''decimal'', ''0.0'')]"
proof -
  from assms obtain t subtype opt mc where
    t: "py_getitem boxData ''type'' = Inr t"
    and sub: "(if t = PStr ''input-text'' then Inr (''text'', '''')
        else if t = PStr ''input-integer'' then Inr (''integer'', ''0'')
        else if t = PStr ''input-decimal'' then Inr (''decimal'', ''0.0'')
        else (case t of
                PStr ty \<Rightarrow> Inl (Exception (''No such box type '' @ ty @ '' in box '' @ boxid))
              | other \<Rightarrow> Inl TypeError)) = Inr subtype"
    and opt: "py_get boxData ''optional'' (PBool False) = Inr opt"
    and mc: "positive_int_field boxData ''maxChars'' 0 boxid = Inr mc"
    and self: "self = InputBox pid boxid (fst subtype) (snd subtype) opt mc"
    unfolding InputBox_init_def by (elim bind_err_InrE) simp
  from mc have nonneg: "0 \<le> mc" by (rule positive_int_field_nonneg) simp
  from sub have "(t, subtype) \<in> set [(PStr ''input-text'', ''text'', ''''),
           (PStr ''input-integer'', ''integer'', ''0''),
           (PStr ''input-decimal'', ''decimal'', ''0.0'')]"
    by (cases t) (simp_all split: if_splits)
  then obtain ty where "t = PStr ty"
    and "(ty, fst subtype, snd subtype) \<in> set [(''input-text'', ''text'', ''''),
           (''input-integer'', ''integer'', ''0''), (''input-decimal'', ''decimal'', ''0.0'')]"
    by auto
  with t opt nonneg self that show ?thesis by blast
qed

subsection \<open>The input box on an empty value\<close>

lemma InputBox_empty_value:
  assumes present: "ti (get_complete_id self) = Some v"
    and empty: "py_len v = Inr 0"
    and mc: "0 \<le> max_chars self"
    and dflt: "(input_type self, default_value self)
                 \<in> set [(''text'', ''''), (''integer'', ''0''), (''decimal'', ''0.0'')]"
  shows "InputBox_input_is_consistent self ti dext dmax =
           (if py_truthy (optional self)
            then Inr (True, ti(get_complete_id self \<mapsto> PStr (default_value self)))
            else Inr (False, ti))"
proof -
  have basic: "BasicBox_input_is_consistent self ti"
    using present by (simp add: BasicBox_input_is_consistent_def)
  have len: "exceeds_max_chars self ti = Inr False"
    using present empty mc by (simp add: exceeds_max_chars_def dict_getitem_def)
  have chk: "InputBox_empty_check self ti =
      (if py_truthy (optional self)
       then Inr (Some (ti(get_complete_id self \<mapsto> PStr (default_value self))))
       else Inr None)"
    using present empty by (simp add: InputBox_empty_check_def dict_getitem_def)
  from dflt consider "input_type self = ''text''" "default_value self = ''''"
    | "input_type self = ''integer''" "default_value self = ''0''"
    | "input_type self = ''decimal''" "default_value self = ''0.0''"
    by auto
  then show ?thesis
    by cases (simp_all add: InputBox_input_is_consistent_def basic len chk dict_getitem_def
        int_literal_0 float_literal_0_0)
qed

text \<open>
  C4. An input box is built from a configuration whose \<^verbatim>\<open>type\<close> is \<open>ty\<close> and whose
  \<^verbatim>\<open>optional\<close> field (False when absent) is \<open>opt\<close>. If the value submitted under its
  composite id has length 0, then: when \<open>opt\<close> is true, \<^verbatim>\<open>input_is_consistent\<close> returns
  True and leaves the subtype default under that id (\<open>""\<close> for input-text, \<open>"0"\<close> for
  input-integer, \<open>"0.0"\<close> for input-decimal); when \<open>opt\<close> is false it returns False and
  leaves the mapping as it was. An empty value is within every \<^verbatim>\<open>maxChars\<close> limit.
\<close>

theorem optional_input_box_empty_value:
  assumes init: "InputBox_init pid boxid boxData = Inr self"
    and type: "py_getitem boxData ''type'' = Inr (PStr ty)"
    and optional: "py_get boxData ''optional'' (PBool False) = Inr opt"
    and present: "task_input (get_complete_id self) = Some v"
    and empty: "py_len v = Inr 0"
  shows "input_is_consistent getsizeof self task_input dext dmax =
           (if py_truthy opt
            then Inr (True, task_input(get_complete_id self \<mapsto>
                   PStr (if ty = ''input-text'' then ''''
                         else if ty = ''input-integer'' then ''0'' else ''0.0'')))
            else Inr (False, task_input))"
proof -
  from init obtain ty' it dv opt' mc where
    ty': "py_getitem boxData ''type'' = Inr (PStr ty')"
    and opt': "py_get boxData ''optional'' (PBool False) = Inr opt'"
    and mc: "0 \<le> mc"
    and self: "self = InputBox pid boxid it dv opt' mc"
    and sub: "(ty', it, dv) \<in> set [(''input-text'', ''text'', ''''),
           (''input-integer'', ''integer'', ''0''), (''input-decimal'', ''decimal'', ''0.0'')]"
    by (rule InputBox_init_Inr)
  from type ty' have [simp]: "ty' = ty" by simp
  from optional opt' have [simp]: "opt' = opt" by simp
  have dv: "dv = (if ty = ''input-text'' then ''''
                  else if ty = ''input-integer'' then ''0'' else ''0.0'')"
    using sub by auto
  have "InputBox_input_is_consistent self task_input dext dmax =
           (if py_truthy (optional self)
            then Inr (True, task_input(get_complete_id self \<mapsto> PStr (default_value self)))
            else Inr (False, task_input))"
    using present empty
  proof (rule InputBox_empty_value)
    show "0 \<le> max_chars self" using mc self by simp
    show "(input_type self, default_value self)
            \<in> set [(''text'', ''''), (''integer'', ''0''), (''decimal'', ''0.0'')]"
      using sub self by auto
  qed
  then show ?thesis
    unfolding self by (simp add: dv)
qed

text \<open>An optional input-decimal box and the empty string: True, and \<open>"0.0"\<close> is left.\<close>

theorem optional_input_box_empty_value_witness:
  "InputBox_init ''p1'' ''b1'' (PDict [(''type'', PStr ''input-decimal''), (''optional'', PBool True)])
     = Inr (InputBox ''p1'' ''b1'' ''decimal'' ''0.0'' (PBool True) 0)
   \<and> py_getitem (PDict [(''type'', PStr ''input-decimal''), (''optional'', PBool True)]) ''type''
     = Inr (PStr ''input-decimal'')
   \<and> py_get (PDict [(''type'', PStr ''input-decimal''), (''optional'', PBool True)]) ''optional''
       (PBool False) = Inr (PBool True)
   \<and> [''p1/b1'' \<mapsto> PStr '''']
        (get_complete_id (InputBox ''p1'' ''b1'' ''decimal'' ''0.0'' (PBool True) 0))
     = Some (PStr '''')
   \<and> py_len (PStr '''') = Inr 0
   \<and> input_is_consistent (\<lambda>v. 0) (InputBox ''p1'' ''b1'' ''decimal'' ''0.0'' (PBool True) 0)
        [''p1/b1'' \<mapsto> PStr ''''] PNone PNone
     = Inr (True, [''p1/b1'' \<mapsto> PStr ''0.0''])"
proof -
  let ?cfg = "PDict [(''type'', PStr ''input-decimal''), (''optional'', PBool True)]"
  let ?box = "InputBox ''p1'' ''b1'' ''decimal'' ''0.0'' (PBool True) 0"
  have a: "InputBox_init ''p1'' ''b1'' ?cfg = Inr ?box"
    by (simp add: InputBox_init_def BasicBox_init_def id_checker_def id_char_def
        positive_int_field_def)
  have b: "py_getitem ?cfg ''type'' = Inr (PStr ''input-decimal'')" by simp
  have c: "py_get ?cfg ''optional'' (PBool False) = Inr (PBool True)" by simp
  have d: "[''p1/b1'' \<mapsto> PStr ''''] (get_complete_id ?box) = Some (PStr '''')"
    by (simp add: get_complete_id_def)
  have e: "py_len (PStr '''') = Inr 0" by simp
  from optional_input_box_empty_value [where getsizeof = "\<lambda>v. 0" and dext = PNone
      and task_input = "[''p1/b1'' \<mapsto> PStr '''']" and dmax = PNone, OF a b c d e] a b c d e
  show ?thesis by (simp add: get_complete_id_def)
qed

subsection \<open>The integer input box on a decimal numeral\<close>

lemma InputBox_integer_rejects_12_5:
  assumes present: "ti (get_complete_id self) = Some (PStr ''12.5'')"
    and integer: "input_type self = ''integer''"
  shows "InputBox_input_is_consistent self ti dext dmax = Inr (False, ti)"
proof -
  have basic: "BasicBox_input_is_consistent self ti"
    using present by (simp add: BasicBox_input_is_consistent_def)
  have len: "exceeds_max_chars self ti = Inr (max_chars self \<noteq> 0 \<and> 4 > max_chars self)"
    using present by (simp add: exceeds_max_chars_def dict_getitem_def)
  have empty: "InputBox_empty_check self ti = Inr (Some ti)"
    using present by (simp add: InputBox_empty_check_def dict_getitem_def)
  have parse: "isl (bind_err (dict_getitem ti (get_complete_id self)) py_int)"
    using present by (simp add: dict_getitem_def int_literal_12_5)
  show ?thesis
    by (simp add: InputBox_input_is_consistent_def basic len empty parse integer)
qed

text \<open>
  C9. An input box built from a configuration of type \<^verbatim>\<open>input-integer\<close>, with the value
  \<open>"12.5"\<close> submitted under its composite id: \<^verbatim>\<open>input_is_consistent\<close> returns False
  (and leaves the mapping as it was), whatever \<^verbatim>\<open>maxChars\<close> is: within the limit the
  value fails to parse as an integer, beyond it the length test already fails.
\<close>

theorem integer_box_rejects_12_5:
  assumes "InputBox_init pid boxid boxData = Inr self"
    and "py_getitem boxData ''type'' = Inr (PStr ''input-integer'')"
    and "task_input (get_complete_id self) = Some (PStr ''12.5'')"
  shows "input_is_consistent getsizeof self task_input dext dmax = Inr (False, task_input)"
proof -
  from assms(1) obtain ty it dv opt mc where
    ty: "py_getitem boxData ''type'' = Inr (PStr ty)"
    and self: "self = InputBox pid boxid it dv opt mc"
    and sub: "(ty, it, dv) \<in> set [(''input-text'', ''text'', ''''),
           (''input-integer'', ''integer'', ''0''), (''input-decimal'', ''decimal'', ''0.0'')]"
    by (rule InputBox_init_Inr)
  from ty assms(2) have "ty = ''input-integer''" by simp
  with sub have "it = ''integer''" by simp
  with self have "input_type self = ''integer''" by simp
  with assms(3) have "InputBox_input_is_consistent self task_input dext dmax = Inr (False, task_input)"
    by (rule InputBox_integer_rejects_12_5)
  then show ?thesis unfolding self by simp
qed

text \<open>An input-integer box with \<^verbatim>\<open>maxChars\<close> 10 and the value \<open>"12.5"\<close>.\<close>

theorem integer_box_rejects_12_5_witness:
  "InputBox_init ''p1'' ''b1'' (PDict [(''type'', PStr ''input-integer''), (''maxChars'', PInt 10)])
     = Inr (InputBox ''p1'' ''b1'' ''integer'' ''0'' (PBool False) 10)
   \<and> py_getitem (PDict [(''type'', PStr ''input-integer''), (''maxChars'', PInt 10)]) ''type''
     = Inr (PStr ''input-integer'')
   \<and> [''p1/b1'' \<mapsto> PStr ''12.5'']
        (get_complete_id (InputBox ''p1'' ''b1'' ''integer'' ''0'' (PBool False) 10))
     = Some (PStr ''12.5'')
   \<and> input_is_consistent (\<lambda>v. 0) (InputBox ''p1'' ''b1'' ''integer'' ''0'' (PBool False) 10)
        [''p1/b1'' \<mapsto> PStr ''12.5''] PNone PNone
     = Inr (False, [''p1/b1'' \<mapsto> PStr ''12.5''])"
proof -
  let ?cfg = "PDict [(''type'', PStr ''input-integer''), (''maxChars'', PInt 10)]"
  let ?box = "InputBox ''p1'' ''b1'' ''integer'' ''0'' (PBool False) 10"
  have a: "InputBox_init ''p1'' ''b1'' ?cfg = Inr ?box"
    by (simp add: InputBox_init_def BasicBox_init_def id_checker_def id_char_def
        positive_int_field_def)
  have b: "py_getitem ?cfg ''type'' = Inr (PStr ''input-integer'')" by simp
  have c: "[''p1/b1'' \<mapsto> PStr ''12.5''] (get_complete_id ?box) = Some (PStr ''12.5'')"
    by (simp add: get_complete_id_def)
  from integer_box_rejects_12_5 [where task_input = "[''p1/b1'' \<mapsto> PStr ''12.5'']"
      and getsizeof = "\<lambda>v. 0" and dext = PNone and dmax = PNone, OF a b c] a b c
  show ?thesis by simp
qed

subsection \<open>The file box\<close>

lemma str_endswith_strings:
  "str_endswith s (map PStr exts) = Inr (list_ex (\<lambda>e. suffix e s) exts)"
  by (induction exts) simp_all

lemma FileBox_checks_record:
  assumes present: "ti (get_complete_id self) = Some record"
    and filename: "py_getitem record ''filename'' = Inr (PStr filename)"
    and exts: "py_or (allowed_exts self) dext = PList (map PStr exts)"
  shows "FileBox_checks getsizeof self ti dext dmax =
           (if list_ex (\<lambda>e. suffix e filename) exts
            then bind_err (py_getitem record ''value'') (\<lambda>val.
                 bind_err (py_gt (getsizeof val) (py_or (max_size self) dmax)) (\<lambda>too_big.
                   if too_big then Inr False else Inr True))
            else Inr False)"
  using present filename
  by (simp add: FileBox_checks_def dict_getitem_def exts str_endswith_strings)

lemma FileBox_verdict:
  assumes present: "ti (get_complete_id self) = Some record"
  shows "FileBox_input_is_consistent getsizeof self ti dext dmax =
           Inr (FileBox_checks getsizeof self ti dext dmax = Inr True, ti)"
proof -
  have basic: "BasicBox_input_is_consistent self ti"
    using present by (simp add: BasicBox_input_is_consistent_def)
  show ?thesis
  proof (cases "FileBox_checks getsizeof self ti dext dmax")
    case (Inl e)
    then show ?thesis by (simp add: FileBox_input_is_consistent_def basic)
  next
    case (Inr ok)
    then show ?thesis by (simp add: FileBox_input_is_consistent_def basic)
  qed
qed

lemma str_endswith_True_iff:
  "str_endswith s xs = Inr True \<longleftrightarrow>
     (\<exists>pre e post. xs = map PStr pre @ PStr e # post \<and> suffix e s)"
proof (induction xs)
  case Nil
  then show ?case by simp
next
  case (Cons x xs)
  show ?case
  proof (cases x)
    case (PStr e)
    show ?thesis
    proof (cases "suffix e s")
      case True
      have "PStr e # xs = map PStr [] @ PStr e # xs" by simp
      with True PStr show ?thesis by (metis str_endswith.simps(2))
    next
      case False
      have "(\<exists>pre e' post. PStr e # xs = map PStr pre @ PStr e' # post \<and> suffix e' s)
            \<longleftrightarrow> (\<exists>pre e' post. xs = map PStr pre @ PStr e' # post \<and> suffix e' s)"
      proof
        assume "\<exists>pre e' post. PStr e # xs = map PStr pre @ PStr e' # post \<and> suffix e' s"
        then obtain pre e' post where eq: "PStr e # xs = map PStr pre @ PStr e' # post"
          and suf: "suffix e' s" by blast
        show "\<exists>pre e' post. xs = map PStr pre @ PStr e' # post \<and> suffix e' s"
        proof (cases pre)
          case Nil
          with eq suf False show ?thesis by simp
        next
          case (Cons p pre')
          with eq have "xs = map PStr pre' @ PStr e' # post" by simp
          with suf show ?thesis by blast
        qed
      next
        assume "\<exists>pre e' post. xs = map PStr pre @ PStr e' # post \<and> suffix e' s"
        then obtain pre e' post where "xs = map PStr pre @ PStr e' # post" and suf: "suffix e' s"
          by blast
        then have "PStr e # xs = map PStr (e # pre) @ PStr e' # post" by simp
        with suf show "\<exists>pre e' post. PStr e # xs = map PStr pre @ PStr e' # post \<and> suffix e' s"
          by blast
      qed
      with False PStr Cons.IH show ?thesis by simp
    qed
  qed (auto simp: Cons_eq_append_conv)
qed

lemma FileBox_checks_list:
  assumes present: "ti (get_complete_id self) = Some record"
    and filename: "py_getitem record ''filename'' = Inr (PStr filename)"
    and exts: "py_or (allowed_exts self) dext = PList xs"
  shows "(FileBox_checks getsizeof self ti dext dmax = Inr True) =
           (str_endswith filename xs = Inr True
            \<and> bind_err (py_getitem record ''value'') (\<lambda>val.
                  py_gt (getsizeof val) (py_or (max_size self) dmax)) = Inr False)"
proof -
  have checks: "FileBox_checks getsizeof self ti dext dmax =
      bind_err (str_endswith filename xs) (\<lambda>ends.
        if \<not> ends then Inr False
        else bind_err (py_getitem record ''value'') (\<lambda>val.
             bind_err (py_gt (getsizeof val) (py_or (max_size self) dmax)) (\<lambda>too_big.
               if too_big then Inr False else Inr True)))"
    using present filename
    by (simp add: FileBox_checks_def dict_getitem_def exts cong: if_cong)
  show ?thesis
  proof (cases "str_endswith filename xs")
    case (Inl e)
    then show ?thesis by (simp add: checks)
  next
    case ends: (Inr ends)
    show ?thesis
    proof (cases ends)
      case False
      with ends show ?thesis by (simp add: checks)
    next
      case True
      show ?thesis
      proof (cases "py_getitem record ''value''")
        case (Inl e)
        with ends True show ?thesis by (simp add: checks)
      next
        case (Inr val)
        with ends True show ?thesis
          by (cases "py_gt (getsizeof val) (py_or (max_size self) dmax)") (auto simp: checks)
      qed
    qed
  qed
qed

text \<open>
  C10, as stated, fails where the list holds a value that is no string: with the list
  \<open>[5, "zip"]\<close> the name \<open>a.zip\<close> ends with the extension string \<open>zip\<close>, yet
  \<^verbatim>\<open>endswith\<close> raises on the \<open>5\<close> it meets first, and the submission is refused.
\<close>

theorem file_extension_counterexample:
  "suffix ''zip'' ''a.zip''
   \<and> input_is_consistent (\<lambda>v. 36) (FileBox ''p1'' ''f'' (PList [PInt 5, PStr ''zip'']) (PInt 1000))
        [''p1/f'' \<mapsto> PDict [(''filename'', PStr ''a.zip''), (''value'', PBytes ''abc'')]]
        PNone PNone
     = Inr (False,
        [''p1/f'' \<mapsto> PDict [(''filename'', PStr ''a.zip''), (''value'', PBytes ''abc'')]])"
  by (simp add: suffix_to_prefix FileBox_input_is_consistent_def FileBox_checks_def
      BasicBox_input_is_consistent_def get_complete_id_def dict_getitem_def py_or_def)

text \<open>
  C10, amended. A file box whose allowed-extension list \<open>xs\<close> is not empty, and a
  submitted record whose file name is a string. If \<open>xs\<close> is a list of strings, the name
  gets past the extension check exactly when it ends with one of them, with or without a
  dot before it (\<open>suffix e filename\<close> is all that is asked), and is refused otherwise. For
  any list, it gets past exactly when some string of the list ends the name and everything
  before that string in the list is a string. The verdict is that of the extension check
  and the size check together: True exactly when the name gets past and the size
  comparison is evaluated and the size is not above the limit.
\<close>

theorem file_extension_is_suffix_test:
  assumes present: "task_input (get_complete_id (FileBox pid bid (PList xs) msize)) = Some record"
    and filename: "py_getitem record ''filename'' = Inr (PStr filename)"
    and nonempty: "xs \<noteq> []"
  shows "(xs = map PStr exts \<longrightarrow>
            input_is_consistent getsizeof (FileBox pid bid (PList xs) msize)
              task_input dext dmax =
            Inr ((\<exists>e \<in> set exts. suffix e filename)
                 \<and> bind_err (py_getitem record ''value'') (\<lambda>val.
                       py_gt (getsizeof val) (py_or msize dmax)) = Inr False, task_input))
       \<and> input_is_consistent getsizeof (FileBox pid bid (PList xs) msize)
            task_input dext dmax =
          Inr ((\<exists>pre e post. xs = map PStr pre @ PStr e # post \<and> suffix e filename)
               \<and> bind_err (py_getitem record ''value'') (\<lambda>val.
                     py_gt (getsizeof val) (py_or msize dmax)) = Inr False, task_input)"
proof -
  let ?self = "FileBox pid bid (PList xs) msize"
  let ?size_ok = "bind_err (py_getitem record ''value'') (\<lambda>val.
                     py_gt (getsizeof val) (py_or msize dmax)) = Inr False"
  from nonempty have or: "py_or (allowed_exts ?self) dext = PList xs"
    by (simp add: py_or_def)
  have "(FileBox_checks getsizeof ?self task_input dext dmax = Inr True) =
          (str_endswith filename xs = Inr True \<and> ?size_ok)"
    using FileBox_checks_list [where ti = task_input and self = ?self, OF present filename or]
    by simp
  then have verdict: "input_is_consistent getsizeof ?self task_input dext dmax =
      Inr (str_endswith filename xs = Inr True \<and> ?size_ok, task_input)"
    using FileBox_verdict [where ti = task_input and self = ?self, OF present] by simp
  have general: "input_is_consistent getsizeof ?self task_input dext dmax =
      Inr ((\<exists>pre e post. xs = map PStr pre @ PStr e # post \<and> suffix e filename)
           \<and> ?size_ok, task_input)"
    unfolding verdict str_endswith_True_iff ..
  have strings: "input_is_consistent getsizeof ?self task_input dext dmax =
      Inr ((\<exists>e \<in> set exts. suffix e filename) \<and> ?size_ok, task_input)"
    if "xs = map PStr exts"
    using verdict unfolding that by (simp add: str_endswith_strings list_ex_iff)
  from general strings show ?thesis by blast
qed

text \<open>With the list \<open>["zip"]\<close>, the name \<open>reportzip\<close> passes and the name
  \<open>report.txt\<close> is refused.\<close>

theorem file_extension_is_suffix_test_witness:
  "[''p1/f'' \<mapsto> PDict [(''filename'', PStr ''reportzip''), (''value'', PBytes ''abc'')]]
     (get_complete_id (FileBox ''p1'' ''f'' (PList [PStr ''zip'']) (PInt 1000)))
     = Some (PDict [(''filename'', PStr ''reportzip''), (''value'', PBytes ''abc'')])
   \<and> py_getitem (PDict [(''filename'', PStr ''reportzip''), (''value'', PBytes ''abc'')])
       ''filename'' = Inr (PStr ''reportzip'')
   \<and> [PStr ''zip''] \<noteq> []
   \<and> [PStr ''zip''] = map PStr [''zip'']
   \<and> input_is_consistent (\<lambda>v. 36) (FileBox ''p1'' ''f'' (PList [PStr ''zip'']) (PInt 1000))
        [''p1/f'' \<mapsto> PDict [(''filename'', PStr ''reportzip''), (''value'', PBytes ''abc'')]]
        PNone PNone
     = Inr (True,
        [''p1/f'' \<mapsto> PDict [(''filename'', PStr ''reportzip''), (''value'', PBytes ''abc'')]])
   \<and> input_is_consistent (\<lambda>v. 36) (FileBox ''p1'' ''f'' (PList [PStr ''zip'']) (PInt 1000))
        [''p1/f'' \<mapsto> PDict [(''filename'', PStr ''report.txt''), (''value'', PBytes ''abc'')]]
        PNone PNone
     = Inr (False,
        [''p1/f'' \<mapsto> PDict [(''filename'', PStr ''report.txt''), (''value'', PBytes ''abc'')]])"
proof -
  let ?box = "FileBox ''p1'' ''f'' (PList [PStr ''zip'']) (PInt 1000)"
  let ?rec = "\<lambda>name. PDict [(''filename'', PStr name), (''value'', PBytes ''abc'')]"
  have a: "\<And>name. [''p1/f'' \<mapsto> ?rec name] (get_complete_id ?box) = Some (?rec name)"
    by (simp add: get_complete_id_def)
  have b: "\<And>name. py_getitem (?rec name) ''filename'' = Inr (PStr name)" by simp
  have c: "[PStr ''zip''] \<noteq> []" by simp
  have d: "[PStr ''zip''] = map PStr [''zip'']" by simp
  have pass: "input_is_consistent (\<lambda>v. 36) ?box [''p1/f'' \<mapsto> ?rec ''reportzip''] PNone PNone
      = Inr (True, [''p1/f'' \<mapsto> ?rec ''reportzip''])"
    using file_extension_is_suffix_test [where getsizeof = "\<lambda>v. 36" and dext = PNone
      and dmax = PNone and exts = "[''zip'']"
      and task_input = "[''p1/f'' \<mapsto> ?rec ''reportzip'']", OF a b c, THEN conjunct1,
      rule_format, OF d]
    by (simp add: py_or_def suffix_to_prefix)
  have refuse: "input_is_consistent (\<lambda>v. 36) ?box [''p1/f'' \<mapsto> ?rec ''report.txt''] PNone PNone
      = Inr (False, [''p1/f'' \<mapsto> ?rec ''report.txt''])"
    using file_extension_is_suffix_test [where getsizeof = "\<lambda>v. 36" and dext = PNone
      and dmax = PNone and exts = "[''zip'']"
      and task_input = "[''p1/f'' \<mapsto> ?rec ''report.txt'']", OF a b c, THEN conjunct1,
      rule_format, OF d]
    by (simp add: py_or_def suffix_to_prefix)
  from a [of "''reportzip''"] b [of "''reportzip''"] c d pass refuse show ?thesis by blast
qed

lemma FileBox_init_Inr:
  assumes "FileBox_init pid boxid (PDict cfg) = Inr self"
  shows "self = FileBox pid boxid
           (case map_of cfg ''allowed_exts'' of None \<Rightarrow> PNone | Some v \<Rightarrow> v)
           (case map_of cfg ''max_size'' of None \<Rightarrow> PNone | Some v \<Rightarrow> v)"
  using assms unfolding FileBox_init_def by (elim bind_err_InrE) auto

lemma FileBox_default_exts:
  assumes "\<not> py_truthy exts"
  shows "input_is_consistent getsizeof (FileBox pid bid exts msize) ti dext dmax =
         input_is_consistent getsizeof (FileBox pid bid dext msize) ti dext dmax"
  using assms
  by (simp add: FileBox_input_is_consistent_def FileBox_checks_def
      BasicBox_input_is_consistent_def get_complete_id_def py_or_def cong: if_cong)

lemma FileBox_default_max_size:
  assumes "\<not> py_truthy msize"
  shows "input_is_consistent getsizeof (FileBox pid bid exts msize) ti dext dmax =
         input_is_consistent getsizeof (FileBox pid bid exts dmax) ti dext dmax"
  using assms
  by (simp add: FileBox_input_is_consistent_def FileBox_checks_def
      BasicBox_input_is_consistent_def get_complete_id_def py_or_def cong: if_cong)

lemma zip_box_verdict:
  assumes present: "ti (get_complete_id (FileBox pid bid (PList [PStr ''zip'']) (PInt 1000)))
             = Some (PDict [(''filename'', PStr filename), (''value'', val)])"
  shows "input_is_consistent getsizeof (FileBox pid bid (PList [PStr ''zip'']) (PInt 1000))
           ti dext dmax =
         Inr (suffix ''zip'' filename \<and> getsizeof val \<le> 1000, ti)"
proof -
  let ?self = "FileBox pid bid (PList [PStr ''zip'']) (PInt 1000)"
  let ?rec = "PDict [(''filename'', PStr filename), (''value'', val)]"
  have fn: "py_getitem ?rec ''filename'' = Inr (PStr filename)" by simp
  have or: "py_or (allowed_exts ?self) dext = PList (map PStr [''zip''])"
    by (simp add: py_or_def)
  have "FileBox_checks getsizeof ?self ti dext dmax =
          (if suffix ''zip'' filename
           then (if int (getsizeof val) > 1000 then Inr False else Inr True) else Inr False)"
    using FileBox_checks_record [where ti = ti and self = ?self, OF present fn or]
    by (simp add: py_or_def)
  then have "(FileBox_checks getsizeof ?self ti dext dmax = Inr True)
               = (suffix ''zip'' filename \<and> getsizeof val \<le> 1000)"
    by auto
  then show ?thesis
    using FileBox_verdict [where ti = ti and self = ?self, OF present] by simp
qed

text \<open>
  C5. A file box built from \<^verbatim>\<open>allowed_exts = ["zip"]\<close> and \<^verbatim>\<open>max_size = 1000\<close>, and a
  submitted record of a file name and a payload of bytes. The interpreter's size of a bytes
  object is taken to be its length plus a fixed header of at most 100 bytes (33 on 64-bit
  CPython). The verdict is True exactly when the name ends with \<open>zip\<close> and the size of
  the payload object is at most 1000. So \<open>a.zip\<close> with 900 bytes passes, \<open>a.zip\<close> with 1500 bytes fails (its size
  is above 1000), and \<open>a.exe\<close> with 10 bytes fails (no allowed extension ends the name).
  A box built without the two fields holds \<^verbatim>\<open>None\<close> for both; a box whose extension
  list is empty or \<^verbatim>\<open>None\<close> validates as the box with the caller's default list, and a
  box whose \<^verbatim>\<open>max_size\<close> is unset as the box with the caller's default size.
\<close>

theorem file_box_zip_1000:
  assumes header: "\<And>bs. getsizeof (PBytes bs) = length bs + overhead"
    and small: "overhead \<le> 100"
    and init: "FileBox_init pid boxid
                 (PDict [(''type'', PStr ''file''), (''allowed_exts'', PList [PStr ''zip'']),
                         (''max_size'', PInt 1000)]) = Inr self"
    and present: "task_input (get_complete_id self)
                    = Some (PDict [(''filename'', PStr filename), (''value'', PBytes payload)])"
  shows "input_is_consistent getsizeof self task_input dext dmax
           = Inr (suffix ''zip'' filename \<and> getsizeof (PBytes payload) \<le> 1000, task_input)
       \<and> (filename = ''a.zip'' \<and> length payload = 900 \<longrightarrow>
            input_is_consistent getsizeof self task_input dext dmax = Inr (True, task_input))
       \<and> (filename = ''a.zip'' \<and> length payload = 1500 \<longrightarrow>
            input_is_consistent getsizeof self task_input dext dmax = Inr (False, task_input))
       \<and> (filename = ''a.exe'' \<and> length payload = 10 \<longrightarrow>
            input_is_consistent getsizeof self task_input dext dmax = Inr (False, task_input))
       \<and> (\<forall>cfg box. FileBox_init pid boxid (PDict cfg) = Inr box
             \<and> map_of cfg ''allowed_exts'' = None \<and> map_of cfg ''max_size'' = None
             \<longrightarrow> box = FileBox pid boxid PNone PNone)
       \<and> (\<forall>exts msize ti. \<not> py_truthy exts \<longrightarrow>
             input_is_consistent getsizeof (FileBox pid boxid exts msize) ti dext dmax =
             input_is_consistent getsizeof (FileBox pid boxid dext msize) ti dext dmax)
       \<and> (\<forall>exts msize ti. \<not> py_truthy msize \<longrightarrow>
             input_is_consistent getsizeof (FileBox pid boxid exts msize) ti dext dmax =
             input_is_consistent getsizeof (FileBox pid boxid exts dmax) ti dext dmax)"
proof -
  from FileBox_init_Inr [OF init]
  have self: "self = FileBox pid boxid (PList [PStr ''zip'']) (PInt 1000)" by simp
  have 0: "input_is_consistent getsizeof self task_input dext dmax
      = Inr (suffix ''zip'' filename \<and> getsizeof (PBytes payload) \<le> 1000, task_input)"
    using zip_box_verdict [where ti = task_input, OF present [unfolded self]]
    by (simp add: self)
  then have verdict: "input_is_consistent getsizeof self task_input dext dmax =
      Inr (suffix ''zip'' filename \<and> length payload + overhead \<le> 1000, task_input)"
    by (simp add: header)
  have zip: "suffix ''zip'' ''a.zip''" and exe: "\<not> suffix ''zip'' ''a.exe''"
    by (simp_all add: suffix_to_prefix)
  have 1: "filename = ''a.zip'' \<and> length payload = 900 \<longrightarrow>
            input_is_consistent getsizeof self task_input dext dmax = Inr (True, task_input)"
    using small by (simp add: verdict zip)
  have 2: "filename = ''a.zip'' \<and> length payload = 1500 \<longrightarrow>
            input_is_consistent getsizeof self task_input dext dmax = Inr (False, task_input)"
    by (simp add: verdict)
  have 3: "filename = ''a.exe'' \<and> length payload = 10 \<longrightarrow>
            input_is_consistent getsizeof self task_input dext dmax = Inr (False, task_input)"
    by (simp add: verdict exe)
  have 4: "\<forall>cfg box. FileBox_init pid boxid (PDict cfg) = Inr box
             \<and> map_of cfg ''allowed_exts'' = None \<and> map_of cfg ''max_size'' = None
             \<longrightarrow> box = FileBox pid boxid PNone PNone"
    using FileBox_init_Inr by fastforce
  from 0 1 2 3 4 FileBox_default_exts FileBox_default_max_size show ?thesis by blast
qed

text \<open>The three submissions, with the 33-byte header of CPython.\<close>

theorem file_box_zip_1000_witness:
  "(\<forall>bs. (\<lambda>v. case v of PBytes b \<Rightarrow> length b + 33 | other \<Rightarrow> 0) (PBytes bs) = length bs + 33)
   \<and> (33 :: nat) \<le> 100
   \<and> FileBox_init ''p1'' ''f''
        (PDict [(''type'', PStr ''file''), (''allowed_exts'', PList [PStr ''zip'']),
                (''max_size'', PInt 1000)])
       = Inr (FileBox ''p1'' ''f'' (PList [PStr ''zip'']) (PInt 1000))
   \<and> input_is_consistent (\<lambda>v. case v of PBytes b \<Rightarrow> length b + 33 | other \<Rightarrow> 0)
        (FileBox ''p1'' ''f'' (PList [PStr ''zip'']) (PInt 1000))
        [''p1/f'' \<mapsto> PDict [(''filename'', PStr ''a.zip''),
                            (''value'', PBytes (replicate 900 (CHR ''x'')))]] PNone PNone
       = Inr (True, [''p1/f'' \<mapsto> PDict [(''filename'', PStr ''a.zip''),
                            (''value'', PBytes (replicate 900 (CHR ''x'')))]])
   \<and> input_is_consistent (\<lambda>v. case v of PBytes b \<Rightarrow> length b + 33 | other \<Rightarrow> 0)
        (FileBox ''p1'' ''f'' (PList [PStr ''zip'']) (PInt 1000))
        [''p1/f'' \<mapsto> PDict [(''filename'', PStr ''a.zip''),
                            (''value'', PBytes (replicate 1500 (CHR ''x'')))]] PNone PNone
       = Inr (False, [''p1/f'' \<mapsto> PDict [(''filename'', PStr ''a.zip''),
                            (''value'', PBytes (replicate 1500 (CHR ''x'')))]])
   \<and> input_is_consistent (\<lambda>v. case v of PBytes b \<Rightarrow> length b + 33 | other \<Rightarrow> 0)
        (FileBox ''p1'' ''f'' (PList [PStr ''zip'']) (PInt 1000))
        [''p1/f'' \<mapsto> PDict [(''filename'', PStr ''a.exe''),
                            (''value'', PBytes (replicate 10 (CHR ''x'')))]] PNone PNone
       = Inr (False, [''p1/f'' \<mapsto> PDict [(''filename'', PStr ''a.exe''),
                            (''value'', PBytes (replicate 10 (CHR ''x'')))]])"
proof -
  let ?gs = "\<lambda>v. case v of PBytes b \<Rightarrow> length b + 33 | other \<Rightarrow> (0 :: nat)"
  let ?box = "FileBox ''p1'' ''f'' (PList [PStr ''zip'']) (PInt 1000)"
  let ?sub = "\<lambda>name n. [''p1/f'' \<mapsto> PDict [(''filename'', PStr name),
                            (''value'', PBytes (replicate n (CHR ''x'')))]]"
  have header: "\<And>bs. ?gs (PBytes bs) = length bs + 33" by simp
  have small: "(33 :: nat) \<le> 100" by simp
  have init: "FileBox_init ''p1'' ''f''
        (PDict [(''type'', PStr ''file''), (''allowed_exts'', PList [PStr ''zip'']),
                (''max_size'', PInt 1000)]) = Inr ?box"
    by (simp add: FileBox_init_def BasicBox_init_def id_checker_def id_char_def)
  have present: "\<And>name n. ?sub name n (get_complete_id ?box)
      = Some (PDict [(''filename'', PStr name), (''value'', PBytes (replicate n (CHR ''x'')))])"
    by (simp add: get_complete_id_def)
  note inst = file_box_zip_1000 [where getsizeof = ?gs and dext = PNone and dmax = PNone,
      OF header small init]
  have pass: "input_is_consistent ?gs ?box (?sub ''a.zip'' 900) PNone PNone
                = Inr (True, ?sub ''a.zip'' 900)"
    using inst [where task_input = "?sub ''a.zip'' 900", OF present, THEN conjunct2]
    by simp
  have big: "input_is_consistent ?gs ?box (?sub ''a.zip'' 1500) PNone PNone
                = Inr (False, ?sub ''a.zip'' 1500)"
    using inst [where task_input = "?sub ''a.zip'' 1500", OF present, THEN conjunct2]
    by simp
  have exe: "input_is_consistent ?gs ?box (?sub ''a.exe'' 10) PNone PNone
                = Inr (False, ?sub ''a.exe'' 10)"
    using inst [where task_input = "?sub ''a.exe'' 10", OF present, THEN conjunct2]
    by simp
  from header small init pass big exe show ?thesis by simp
qed

subsection \<open>Values without a length\<close>

lemma get_complete_id_ids:
  "get_complete_id self =
     (if box_id self \<noteq> '''' then problem_id self @ ''/'' @ box_id self else problem_id self)"
  by (simp add: get_complete_id_def)

lemma MultilineBox_unsized:
  assumes present: "ti (get_complete_id self) = Some v" and unsized: "py_len v = Inl e"
  shows "MultilineBox_input_is_consistent self ti dext dmax = Inl e"
proof -
  have basic: "BasicBox_input_is_consistent self ti"
    using present by (simp add: BasicBox_input_is_consistent_def)
  have len: "exceeds_max_chars self ti = (if max_chars self \<noteq> 0 then Inl e else Inr False)"
    using present unsized by (simp add: exceeds_max_chars_def dict_getitem_def)
  show ?thesis
    using present unsized
    by (simp add: MultilineBox_input_is_consistent_def basic len dict_getitem_def)
qed

lemma InputBox_unsized:
  assumes present: "ti (get_complete_id self) = Some v" and unsized: "py_len v = Inl e"
  shows "InputBox_input_is_consistent self ti dext dmax =
           (if max_chars self \<noteq> 0 then Inl e else Inr (False, ti))"
proof -
  have basic: "BasicBox_input_is_consistent self ti"
    using present by (simp add: BasicBox_input_is_consistent_def)
  have len: "exceeds_max_chars self ti = (if max_chars self \<noteq> 0 then Inl e else Inr False)"
    using present unsized by (simp add: exceeds_max_chars_def dict_getitem_def)
  have chk: "InputBox_empty_check self ti = Inl e"
    using present unsized by (simp add: InputBox_empty_check_def dict_getitem_def)
  show ?thesis
    by (simp add: InputBox_input_is_consistent_def basic len chk)
qed

text \<open>
  C1. The claim is that no exception leaves \<^verbatim>\<open>input_is_consistent\<close>. The code does
  otherwise: when the value submitted under the box's id has no length (\<^verbatim>\<open>None\<close>, a
  number, an uploaded-file object), \<^verbatim>\<open>len\<close> raises a TypeError. The multiline box
  calls \<^verbatim>\<open>len\<close> outside any \<^verbatim>\<open>try\<close>, so the error leaves the method; the input box
  does so in its \<^verbatim>\<open>maxChars\<close> test, so the error leaves it whenever \<^verbatim>\<open>maxChars\<close> is
  set, and is caught (verdict False) only when it is not.
\<close>

theorem unsized_value_raises:
  assumes unsized: "py_len v = Inl e"
  shows "(task_input (get_complete_id (MultilineBox pid bid mc opt nlines lang)) = Some v \<longrightarrow>
            input_is_consistent getsizeof (MultilineBox pid bid mc opt nlines lang)
              task_input dext dmax = Inl e)
       \<and> (task_input (get_complete_id (InputBox pid bid it dv opt' mc')) = Some v \<longrightarrow>
            input_is_consistent getsizeof (InputBox pid bid it dv opt' mc')
              task_input dext dmax = (if mc' \<noteq> 0 then Inl e else Inr (False, task_input)))"
  using MultilineBox_unsized [where ti = task_input, OF _ unsized]
    InputBox_unsized [where ti = task_input, OF _ unsized]
  by simp

text \<open>An uploaded-file object submitted to a multiline box and to an input box with
  \<^verbatim>\<open>maxChars\<close> 10: a TypeError both times.\<close>

theorem unsized_value_raises_witness:
  "py_len (PObject [(''filename'', PStr ''a.txt''), (''value'', PBytes ''abc'')]) = Inl TypeError
   \<and> MultilineBox_init ''p1'' ''b1'' (PDict [(''type'', PStr ''multiline'')])
     = Inr (MultilineBox ''p1'' ''b1'' 0 (PBool False) 8 ''plain'')
   \<and> input_is_consistent (\<lambda>v. 0) (MultilineBox ''p1'' ''b1'' 0 (PBool False) 8 ''plain'')
        [''p1/b1'' \<mapsto> PObject [(''filename'', PStr ''a.txt''), (''value'', PBytes ''abc'')]]
        PNone PNone
     = Inl TypeError
   \<and> InputBox_init ''p1'' ''b1'' (PDict [(''type'', PStr ''input-text''), (''maxChars'', PInt 10)])
     = Inr (InputBox ''p1'' ''b1'' ''text'' '''' (PBool False) 10)
   \<and> input_is_consistent (\<lambda>v. 0) (InputBox ''p1'' ''b1'' ''text'' '''' (PBool False) 10)
        [''p1/b1'' \<mapsto> PObject [(''filename'', PStr ''a.txt''), (''value'', PBytes ''abc'')]]
        PNone PNone
     = Inl TypeError"
proof -
  let ?v = "PObject [(''filename'', PStr ''a.txt''), (''value'', PBytes ''abc'')]"
  have b: "py_len ?v = Inl TypeError" by simp
  have c: "MultilineBox_init ''p1'' ''b1'' (PDict [(''type'', PStr ''multiline'')])
     = Inr (MultilineBox ''p1'' ''b1'' 0 (PBool False) 8 ''plain'')"
    by (simp add: MultilineBox_init_def BasicBox_init_def id_checker_def id_char_def
        positive_int_field_def language_match_def)
  have d: "InputBox_init ''p1'' ''b1'' (PDict [(''type'', PStr ''input-text''), (''maxChars'', PInt 10)])
     = Inr (InputBox ''p1'' ''b1'' ''text'' '''' (PBool False) 10)"
    by (simp add: InputBox_init_def BasicBox_init_def id_checker_def id_char_def
        positive_int_field_def)
  from unsized_value_raises [where task_input = "[''p1/b1'' \<mapsto> ?v]" and getsizeof = "\<lambda>v. 0"
      and pid = "''p1''" and bid = "''b1''"
      and mc = 0 and opt = "PBool False" and nlines = 8 and lang = "''plain''"
      and it = "''text''" and dv = "''''" and opt' = "PBool False" and mc' = 10
      and dext = PNone and dmax = PNone, OF b] b c d
  show ?thesis by (simp add: get_complete_id_def)
qed

subsection \<open>The language of a multiline box\<close>

lemma language_match_cpp: "language_match ''cpp''"
  by (simp add: language_match_def language_char_def)

lemma language_match_cxx: "\<not> language_match ''c++''"
  by (simp add: language_match_def language_char_def)

lemma language_match_empty: "\<not> language_match ''''"
  by (simp add: language_match_def)

lemma MultilineBox_init_language:
  assumes id: "BasicBox_init boxid = Inr ()"
    and mc: "positive_int_field (PDict cfg) ''maxChars'' 0 boxid = Inr mc"
    and ln: "positive_int_field (PDict cfg) ''lines'' 8 boxid = Inr nlines"
  shows "MultilineBox_init pid boxid (PDict cfg) =
           (case (case map_of cfg ''language'' of None \<Rightarrow> PStr '''' | Some l \<Rightarrow> l) of
              PStr s \<Rightarrow>
                if language_match s
                then Inr (MultilineBox pid boxid mc
                       (case map_of cfg ''optional'' of None \<Rightarrow> PBool False | Some v \<Rightarrow> v)
                       nlines s)
                else if s \<noteq> [] then Inl (Exception (''Invalid language '' @ s))
                else Inr (MultilineBox pid boxid mc
                       (case map_of cfg ''optional'' of None \<Rightarrow> PBool False | Some v \<Rightarrow> v)
                       nlines ''plain'')
            | other \<Rightarrow> Inl TypeError)"
  by (simp add: MultilineBox_init_def id mc ln)

lemma MultilineBox_init_cxx:
  assumes "map_of cfg ''language'' = Some (PStr ''c++'')"
  shows "isl (MultilineBox_init pid boxid (PDict cfg))"
proof (cases "BasicBox_init boxid")
  case (Inl e)
  then show ?thesis by (simp add: MultilineBox_init_def)
next
  case id: (Inr u)
  show ?thesis
  proof (cases "positive_int_field (PDict cfg) ''maxChars'' 0 boxid")
    case (Inl e)
    with id show ?thesis by (simp add: MultilineBox_init_def)
  next
    case mc: (Inr mc)
    show ?thesis
    proof (cases "positive_int_field (PDict cfg) ''lines'' 8 boxid")
      case (Inl e)
      with id mc show ?thesis by (simp add: MultilineBox_init_def)
    next
      case (Inr nlines)
      with id mc assms show ?thesis
        by (simp add: MultilineBox_init_def language_match_cxx)
    qed
  qed
qed

text \<open>
  C7. The constructor of the multiline box and the \<^verbatim>\<open>language\<close> field. With
  \<open>"c++"\<close> the construction raises, whatever the rest of the configuration is; when the
  box id, \<^verbatim>\<open>maxChars\<close> and \<^verbatim>\<open>lines\<close> are valid, the error is the one that names the
  language (the \<open>+\<close> is outside the character class), \<open>"cpp"\<close> builds a box with language
  \<open>cpp\<close>, and an absent or empty field builds a box with language \<open>plain\<close>.
\<close>

theorem multiline_language:
  "(map_of cfg ''language'' = Some (PStr ''c++'') \<longrightarrow>
      isl (MultilineBox_init pid boxid (PDict cfg)))
   \<and> (BasicBox_init boxid = Inr ()
        \<and> positive_int_field (PDict cfg) ''maxChars'' 0 boxid = Inr mc
        \<and> positive_int_field (PDict cfg) ''lines'' 8 boxid = Inr nlines
        \<and> py_get (PDict cfg) ''optional'' (PBool False) = Inr opt \<longrightarrow>
      (map_of cfg ''language'' = Some (PStr ''c++'') \<longrightarrow>
         MultilineBox_init pid boxid (PDict cfg) = Inl (Exception ''Invalid language c++''))
      \<and> (map_of cfg ''language'' = Some (PStr ''cpp'') \<longrightarrow>
         MultilineBox_init pid boxid (PDict cfg) = Inr (MultilineBox pid boxid mc opt nlines ''cpp''))
      \<and> (map_of cfg ''language'' = None \<or> map_of cfg ''language'' = Some (PStr '''') \<longrightarrow>
         MultilineBox_init pid boxid (PDict cfg)
           = Inr (MultilineBox pid boxid mc opt nlines ''plain'')))"
proof -
  have 1: "map_of cfg ''language'' = Some (PStr ''c++'') \<longrightarrow>
      isl (MultilineBox_init pid boxid (PDict cfg))"
    using MultilineBox_init_cxx by blast
  have 2: "(map_of cfg ''language'' = Some (PStr ''c++'') \<longrightarrow>
         MultilineBox_init pid boxid (PDict cfg) = Inl (Exception ''Invalid language c++''))
      \<and> (map_of cfg ''language'' = Some (PStr ''cpp'') \<longrightarrow>
         MultilineBox_init pid boxid (PDict cfg) = Inr (MultilineBox pid boxid mc opt nlines ''cpp''))
      \<and> (map_of cfg ''language'' = None \<or> map_of cfg ''language'' = Some (PStr '''') \<longrightarrow>
         MultilineBox_init pid boxid (PDict cfg)
           = Inr (MultilineBox pid boxid mc opt nlines ''plain''))"
    if "BasicBox_init boxid = Inr ()"
      and "positive_int_field (PDict cfg) ''maxChars'' 0 boxid = Inr mc"
      and "positive_int_field (PDict cfg) ''lines'' 8 boxid = Inr nlines"
      and "py_get (PDict cfg) ''optional'' (PBool False) = Inr opt"
    using that(4)
    by (auto simp: MultilineBox_init_language [OF that(1,2,3)] language_match_cpp
        language_match_cxx language_match_empty)
  from 1 2 show ?thesis by blast
qed

text \<open>The four configurations of a box \<open>b1\<close>: \<open>c++\<close>, \<open>cpp\<close>, no language, the empty
  language.\<close>

theorem multiline_language_witness:
  "map_of [(''type'', PStr ''multiline''), (''language'', PStr ''c++'')] ''language''
     = Some (PStr ''c++'')
   \<and> MultilineBox_init ''p1'' ''b1''
        (PDict [(''type'', PStr ''multiline''), (''language'', PStr ''c++'')])
     = Inl (Exception ''Invalid language c++'')
   \<and> BasicBox_init ''b1'' = Inr ()
   \<and> positive_int_field (PDict [(''type'', PStr ''multiline''), (''language'', PStr ''cpp'')])
        ''maxChars'' 0 ''b1'' = Inr 0
   \<and> positive_int_field (PDict [(''type'', PStr ''multiline''), (''language'', PStr ''cpp'')])
        ''lines'' 8 ''b1'' = Inr 8
   \<and> py_get (PDict [(''type'', PStr ''multiline''), (''language'', PStr ''cpp'')])
        ''optional'' (PBool False) = Inr (PBool False)
   \<and> MultilineBox_init ''p1'' ''b1''
        (PDict [(''type'', PStr ''multiline''), (''language'', PStr ''cpp'')])
     = Inr (MultilineBox ''p1'' ''b1'' 0 (PBool False) 8 ''cpp'')
   \<and> MultilineBox_init ''p1'' ''b1'' (PDict [(''type'', PStr ''multiline'')])
     = Inr (MultilineBox ''p1'' ''b1'' 0 (PBool False) 8 ''plain'')
   \<and> MultilineBox_init ''p1'' ''b1''
        (PDict [(''type'', PStr ''multiline''), (''language'', PStr '''')])
     = Inr (MultilineBox ''p1'' ''b1'' 0 (PBool False) 8 ''plain'')"
proof -
  have id: "BasicBox_init ''b1'' = Inr ()"
    by (simp add: BasicBox_init_def id_checker_def id_char_def)
  have mc: "\<And>l. positive_int_field (PDict [(''type'', PStr ''multiline''), (''language'', l)])
        ''maxChars'' 0 ''b1'' = Inr 0"
    and mc0: "positive_int_field (PDict [(''type'', PStr ''multiline'')]) ''maxChars'' 0 ''b1'' = Inr 0"
    by (simp_all add: positive_int_field_def)
  have ln: "\<And>l. positive_int_field (PDict [(''type'', PStr ''multiline''), (''language'', l)])
        ''lines'' 8 ''b1'' = Inr 8"
    and ln0: "positive_int_field (PDict [(''type'', PStr ''multiline'')]) ''lines'' 8 ''b1'' = Inr 8"
    by (simp_all add: positive_int_field_def)
  have opt: "\<And>l. py_get (PDict [(''type'', PStr ''multiline''), (''language'', l)])
        ''optional'' (PBool False) = Inr (PBool False)"
    and opt0: "py_get (PDict [(''type'', PStr ''multiline'')]) ''optional'' (PBool False)
       = Inr (PBool False)"
    by simp_all
  note cxx = multiline_language [where pid = "''p1''" and boxid = "''b1''" and mc = 0
      and nlines = 8 and opt = "PBool False"
      and cfg = "[(''type'', PStr ''multiline''), (''language'', PStr ''c++'')]"]
  note cpp = multiline_language [where pid = "''p1''" and boxid = "''b1''" and mc = 0
      and nlines = 8 and opt = "PBool False"
      and cfg = "[(''type'', PStr ''multiline''), (''language'', PStr ''cpp'')]"]
  note absent = multiline_language [where pid = "''p1''" and boxid = "''b1''" and mc = 0
      and nlines = 8 and opt = "PBool False" and cfg = "[(''type'', PStr ''multiline'')]"]
  note empty = multiline_language [where pid = "''p1''" and boxid = "''b1''" and mc = 0
      and nlines = 8 and opt = "PBool False"
      and cfg = "[(''type'', PStr ''multiline''), (''language'', PStr '''')]"]
  from cxx cpp absent empty id mc mc0 ln ln0 opt opt0 show ?thesis by simp
qed

subsection \<open>Box ids\<close>

lemma TextBox_init_box_id:
  assumes "TextBox_init pid boxid boxData = Inr b"
  shows "box_id b = boxid"
  using assms unfolding TextBox_init_def
  by (elim bind_err_InrE) (auto split: if_splits elim!: bind_err_InrE)

lemma FileBox_init_box_id:
  assumes "FileBox_init pid boxid boxData = Inr b"
  shows "box_id b = boxid"
  using assms unfolding FileBox_init_def by (elim bind_err_InrE) auto

lemma InputBox_init_box_id:
  assumes "InputBox_init pid boxid boxData = Inr b"
  shows "box_id b = boxid"
  using assms by (elim InputBox_init_Inr) simp

lemma MultilineBox_init_box_id:
  assumes "MultilineBox_init pid boxid boxData = Inr b"
  shows "box_id b = boxid"
proof -
  from assms obtain mc opt nlines lang where
    "(case lang of
         PStr s \<Rightarrow>
           if language_match s then Inr (MultilineBox pid boxid mc opt nlines s)
           else if s \<noteq> [] then Inl (Exception (''Invalid language '' @ s))
           else Inr (MultilineBox pid boxid mc opt nlines ''plain'')
       | other \<Rightarrow> Inl TypeError) = Inr b"
    unfolding MultilineBox_init_def by (elim bind_err_InrE) simp
  then show ?thesis by (cases lang) (auto split: if_splits)
qed

lemma box_types_init_box_id:
  assumes "map_of box_types ty = Some init" and "init pid boxid boxData = Inr b"
  shows "box_id b = boxid"
proof -
  from assms(1) have "init = InputBox_init \<or> init = MultilineBox_init
      \<or> init = TextBox_init \<or> init = FileBox_init"
    by (auto simp: box_types_def split: if_splits)
  with assms(2) show ?thesis
    using InputBox_init_box_id MultilineBox_init_box_id TextBox_init_box_id FileBox_init_box_id
    by blast
qed

lemma create_box_Inr:
  assumes "create_box pid boxid box_content = Inr b"
  shows "(id_checker boxid \<or> boxid = '''') \<and> box_id b = boxid"
proof -
  from assms have ok: "id_checker boxid \<or> boxid = ''''"
    by (auto simp: create_box_def split: if_splits)
  with assms obtain present where
    "(if \<not> present then Inl (Exception (''Box '' @ boxid @ '' does not have a type''))
        else bind_err (py_getitem box_content ''type'') (\<lambda>t.
          case t of
            PStr ty \<Rightarrow>
              (case map_of box_types ty of
                 None \<Rightarrow> Inl (Exception (''Unknown box type '' @ ty @ '' for box _id '' @ boxid))
               | Some init \<Rightarrow> init pid boxid box_content)
          | other \<Rightarrow> Inl TypeError)) = Inr b"
    unfolding create_box_def by (auto elim!: bind_err_InrE split: if_splits)
  then obtain t where
    "(case t of
            PStr ty \<Rightarrow>
              (case map_of box_types ty of
                 None \<Rightarrow> Inl (Exception (''Unknown box type '' @ ty @ '' for box _id '' @ boxid))
               | Some init \<Rightarrow> init pid boxid box_content)
          | other \<Rightarrow> Inl TypeError) = Inr b"
    by (cases present) (auto elim!: bind_err_InrE)
  then obtain ty init where "map_of box_types ty = Some init"
    and "init pid boxid box_content = Inr b"
    by (cases t) (auto split: option.splits)
  then have "box_id b = boxid" by (rule box_types_init_box_id)
  with ok show ?thesis by simp
qed

lemma init_boxes_loop_empty_id:
  assumes "'''' \<in> set (map fst items)"
  shows "isl (init_boxes_loop pid items acc)"
  using assms
proof (induction items arbitrary: acc)
  case Nil
  then show ?case by simp
next
  case (Cons item items)
  obtain boxid box_content where item: "item = (boxid, box_content)" by (cases item)
  show ?case
  proof (cases "boxid = ''''")
    case True
    with item show ?thesis by simp
  next
    case False
    with Cons.prems item have "'''' \<in> set (map fst items)" by auto
    then have "\<And>acc. isl (init_boxes_loop pid items acc)" by (rule Cons.IH)
    with False item show ?thesis
      by (cases "create_box pid boxid box_content") simp_all
  qed
qed

lemma init_boxes_loop_stops_at_empty_id:
  assumes "init_boxes_loop pid pre acc = Inr bs"
  shows "init_boxes_loop pid (pre @ ('''', cfg) # post) acc
           = Inl (Exception ''Empty box ids are not allowed'')"
  using assms
proof (induction pre arbitrary: acc)
  case Nil
  then show ?case by simp
next
  case (Cons item pre)
  obtain boxid bc where item: "item = (boxid, bc)" by (cases item)
  from Cons.prems item have nonempty: "boxid \<noteq> ''''" by (auto split: if_splits)
  with Cons.prems item obtain b where b: "create_box pid boxid bc = Inr b"
    and rest: "init_boxes_loop pid pre (acc @ [b]) = Inr bs"
    by (auto elim!: bind_err_InrE)
  from rest have "init_boxes_loop pid (pre @ ('''', cfg) # post) (acc @ [b])
           = Inl (Exception ''Empty box ids are not allowed'')"
    by (rule Cons.IH)
  with nonempty b item show ?case by simp
qed

lemma init_boxes_loop_box_ids:
  assumes "init_boxes_loop pid items acc = Inr bs"
  shows "map box_id bs = map box_id acc @ map fst items \<and> '''' \<notin> set (map fst items)"
  using assms
proof (induction items arbitrary: acc)
  case Nil
  then show ?case by simp
next
  case (Cons item items)
  obtain boxid bc where item: "item = (boxid, bc)" by (cases item)
  from Cons.prems item have nonempty: "boxid \<noteq> ''''" by (auto split: if_splits)
  with Cons.prems item obtain b where b: "create_box pid boxid bc = Inr b"
    and rest: "init_boxes_loop pid items (acc @ [b]) = Inr bs"
    by (auto elim!: bind_err_InrE)
  from b have "box_id b = boxid" using create_box_Inr by blast
  with Cons.IH [OF rest] nonempty item show ?case by simp
qed

lemma init_boxes_Inr:
  assumes "init_boxes pid content = Inr bs"
  shows "'''' \<notin> set (map box_id bs)"
proof -
  from assms obtain present where
    p: "(if present
       then bind_err (py_getitem content ''boxes'') (\<lambda>bs.
            bind_err (py_items bs) (\<lambda>items. init_boxes_loop pid items []))
       else Inr []) = Inr bs"
    unfolding init_boxes_def by (elim bind_err_InrE)
  show ?thesis
  proof (cases present)
    case False
    with p show ?thesis by simp
  next
    case True
    with p obtain items where "init_boxes_loop pid items [] = Inr bs"
      by (auto elim!: bind_err_InrE)
    from init_boxes_loop_box_ids [OF this] show ?thesis by simp
  qed
qed

lemma init_boxes_items:
  assumes "py_getitem content ''boxes'' = Inr (PDict items)"
  shows "init_boxes pid content = init_boxes_loop pid items []"
proof -
  from assms obtain kvs where content: "content = PDict kvs"
    by (cases content) simp_all
  with assms have "map_of kvs ''boxes'' = Some (PDict items)"
    by (simp split: option.splits)
  then have "''boxes'' \<in> set (map fst kvs)"
    by (metis map_of_eq_None_iff option.distinct(1) set_map)
  with assms content show ?thesis by (simp add: init_boxes_def)
qed

text \<open>Whether a constructor accepts a configuration does not depend on the id, once the id
  is valid or empty: the id enters the messages of the errors only.\<close>

lemma BasicBox_init_eq:
  "BasicBox_init boxid =
     (if id_checker boxid \<or> boxid = '''' then Inr ()
      else Inl (Exception (''Invalid box _id: '' @ boxid)))"
  by (simp add: BasicBox_init_def)

lemma positive_int_field_other_id:
  assumes "positive_int_field boxData field dflt boxid0 = Inr n"
  shows "positive_int_field boxData field dflt boxid = Inr n"
proof (cases "py_contains boxData field")
  case (Inl e)
  with assms show ?thesis by (simp add: positive_int_field_def)
next
  case (Inr present)
  show ?thesis
  proof (cases present)
    case False
    with Inr assms show ?thesis by (simp add: positive_int_field_def)
  next
    case True
    show ?thesis
    proof (cases "py_getitem boxData field")
      case (Inl e)
      with Inr True assms show ?thesis by (simp add: positive_int_field_def)
    next
      case v: (Inr v)
      with Inr True assms show ?thesis
        by (cases v) (simp_all add: positive_int_field_def split: if_splits)
    qed
  qed
qed

lemma TextBox_init_other_id:
  assumes "TextBox_init pid boxid0 boxData = Inr b0" and "id_checker boxid \<or> boxid = ''''"
  shows "\<exists>b. TextBox_init pid boxid boxData = Inr b"
proof -
  from assms(1) obtain present where "py_contains boxData ''content'' = Inr present"
    and rest: "(if \<not> present
       then Inl (Exception (''Box _id '' @ boxid0 @ '' with type=text do not have content.''))
       else bind_err (py_getitem boxData ''content'') (\<lambda>c. Inr (TextBox pid boxid0 c))) = Inr b0"
    unfolding TextBox_init_def by (elim bind_err_InrE)
  moreover from rest have present by (simp split: if_splits)
  moreover from rest \<open>present\<close> obtain c where "py_getitem boxData ''content'' = Inr c"
    by (auto elim!: bind_err_InrE)
  ultimately show ?thesis using assms(2) by (simp add: TextBox_init_def BasicBox_init_eq)
qed

lemma FileBox_init_other_id:
  assumes "FileBox_init pid boxid0 boxData = Inr b0" and "id_checker boxid \<or> boxid = ''''"
  shows "\<exists>b. FileBox_init pid boxid boxData = Inr b"
proof -
  from assms(1) obtain exts msize where "py_get boxData ''allowed_exts'' PNone = Inr exts"
    and "py_get boxData ''max_size'' PNone = Inr msize"
    unfolding FileBox_init_def by (elim bind_err_InrE)
  then show ?thesis using assms(2) by (simp add: FileBox_init_def BasicBox_init_eq)
qed

lemma InputBox_init_other_id:
  assumes "InputBox_init pid boxid0 boxData = Inr b0" and "id_checker boxid \<or> boxid = ''''"
  shows "\<exists>b. InputBox_init pid boxid boxData = Inr b"
proof -
  from assms(1) obtain t subtype opt mc where
    t: "py_getitem boxData ''type'' = Inr t"
    and sub: "(if t = PStr ''input-text'' then Inr (''text'', '''')
        else if t = PStr ''input-integer'' then Inr (''integer'', ''0'')
        else if t = PStr ''input-decimal'' then Inr (''decimal'', ''0.0'')
        else (case t of
                PStr ty \<Rightarrow> Inl (Exception (''No such box type '' @ ty @ '' in box '' @ boxid0))
              | other \<Rightarrow> Inl TypeError)) = Inr subtype"
    and opt: "py_get boxData ''optional'' (PBool False) = Inr opt"
    and mc: "positive_int_field boxData ''maxChars'' 0 boxid0 = Inr mc"
    unfolding InputBox_init_def by (elim bind_err_InrE)
  from sub have "t = PStr ''input-text'' \<or> t = PStr ''input-integer'' \<or> t = PStr ''input-decimal''"
    by (cases t) (simp_all split: if_splits)
  moreover from mc have "positive_int_field boxData ''maxChars'' 0 boxid = Inr mc"
    by (rule positive_int_field_other_id)
  ultimately show ?thesis
    using t opt assms(2) by (auto simp: InputBox_init_def BasicBox_init_eq)
qed

lemma MultilineBox_init_other_id:
  assumes "MultilineBox_init pid boxid0 boxData = Inr b0" and "id_checker boxid \<or> boxid = ''''"
  shows "\<exists>b. MultilineBox_init pid boxid boxData = Inr b"
proof -
  from assms(1) obtain mc opt nlines lang where
    mc: "positive_int_field boxData ''maxChars'' 0 boxid0 = Inr mc"
    and opt: "py_get boxData ''optional'' (PBool False) = Inr opt"
    and ln: "positive_int_field boxData ''lines'' 8 boxid0 = Inr nlines"
    and lang: "py_get boxData ''language'' (PStr '''') = Inr lang"
    and rest: "(case lang of
         PStr s \<Rightarrow>
           if language_match s then Inr (MultilineBox pid boxid0 mc opt nlines s)
           else if s \<noteq> [] then Inl (Exception (''Invalid language '' @ s))
           else Inr (MultilineBox pid boxid0 mc opt nlines ''plain'')
       | other \<Rightarrow> Inl TypeError) = Inr b0"
    unfolding MultilineBox_init_def by (elim bind_err_InrE)
  from rest obtain s where s: "lang = PStr s" and "language_match s \<or> s = []"
    by (cases lang) (auto split: if_splits)
  moreover from mc have "positive_int_field boxData ''maxChars'' 0 boxid = Inr mc"
    by (rule positive_int_field_other_id)
  moreover from ln have "positive_int_field boxData ''lines'' 8 boxid = Inr nlines"
    by (rule positive_int_field_other_id)
  ultimately show ?thesis
    using opt lang assms(2) by (auto simp: MultilineBox_init_def BasicBox_init_eq)
qed

lemma init_bad_id:
  assumes "init \<in> set [TextBox_init, FileBox_init, InputBox_init, MultilineBox_init]"
    and "\<not> id_checker boxid" and "boxid \<noteq> ''''"
  shows "init pid boxid boxData = Inl (Exception (''Invalid box _id: '' @ boxid))"
  using assms
  by (auto simp: TextBox_init_def FileBox_init_def InputBox_init_def MultilineBox_init_def
      BasicBox_init_eq)

lemma init_Inr_id:
  assumes "init \<in> set [TextBox_init, FileBox_init, InputBox_init, MultilineBox_init]"
    and "init pid boxid boxData = Inr b"
  shows "(id_checker boxid \<or> boxid = '''') \<and> box_id b = boxid"
proof -
  have "id_checker boxid \<or> boxid = ''''"
  proof (rule ccontr)
    assume "\<not> (id_checker boxid \<or> boxid = '''')"
    with assms(1) have "init pid boxid boxData = Inl (Exception (''Invalid box _id: '' @ boxid))"
      using init_bad_id by blast
    with assms(2) show False by simp
  qed
  moreover from assms have "box_id b = boxid"
    using TextBox_init_box_id FileBox_init_box_id InputBox_init_box_id MultilineBox_init_box_id
    by auto
  ultimately show ?thesis by simp
qed

lemma init_other_id:
  assumes "init \<in> set [TextBox_init, FileBox_init, InputBox_init, MultilineBox_init]"
    and "init pid boxid0 boxData = Inr b0" and "id_checker boxid \<or> boxid = ''''"
  shows "\<exists>b. init pid boxid boxData = Inr b"
  using assms TextBox_init_other_id FileBox_init_other_id InputBox_init_other_id
    MultilineBox_init_other_id
  by auto

lemma box_types_inits:
  assumes "map_of box_types ty = Some init"
  shows "init \<in> set [TextBox_init, FileBox_init, InputBox_init, MultilineBox_init]"
  using assms by (auto simp: box_types_def split: if_splits)

lemma create_box_bad_id:
  assumes "\<not> id_checker boxid" and "boxid \<noteq> ''''"
  shows "create_box pid boxid box_content = Inl (Exception (''Invalid box _id '' @ boxid))"
  using assms by (simp add: create_box_def)

lemma create_box_other_id:
  assumes "create_box pid boxid0 box_content = Inr b0" and good: "id_checker boxid \<or> boxid = ''''"
  shows "\<exists>b. create_box pid boxid box_content = Inr b"
proof -
  from assms(1) have ok0: "id_checker boxid0 \<or> boxid0 = ''''"
    by (auto simp: create_box_def split: if_splits)
  with assms(1) obtain present where present: "py_contains box_content ''type'' = Inr present"
    and 1: "(if \<not> present then Inl (Exception (''Box '' @ boxid0 @ '' does not have a type''))
        else bind_err (py_getitem box_content ''type'') (\<lambda>t.
          case t of
            PStr ty \<Rightarrow>
              (case map_of box_types ty of
                 None \<Rightarrow> Inl (Exception (''Unknown box type '' @ ty @ '' for box _id '' @ boxid0))
               | Some init \<Rightarrow> init pid boxid0 box_content)
          | other \<Rightarrow> Inl TypeError)) = Inr b0"
    unfolding create_box_def by (auto elim!: bind_err_InrE split: if_splits)
  from 1 have p: present by (simp split: if_splits)
  with 1 obtain t where t: "py_getitem box_content ''type'' = Inr t"
    and 2: "(case t of
            PStr ty \<Rightarrow>
              (case map_of box_types ty of
                 None \<Rightarrow> Inl (Exception (''Unknown box type '' @ ty @ '' for box _id '' @ boxid0))
               | Some init \<Rightarrow> init pid boxid0 box_content)
          | other \<Rightarrow> Inl TypeError) = Inr b0"
    by (auto elim!: bind_err_InrE)
  from 2 obtain ty init where ty: "t = PStr ty" and reg: "map_of box_types ty = Some init"
    and built: "init pid boxid0 box_content = Inr b0"
    by (cases t) (auto split: option.splits)
  from box_types_inits [OF reg] built good obtain b where "init pid boxid box_content = Inr b"
    using init_other_id by blast
  with present p t ty reg good show ?thesis by (auto simp: create_box_def)
qed


lemma init_accepts_iff:
  assumes "init \<in> set [TextBox_init, FileBox_init, InputBox_init, MultilineBox_init]"
  shows "(\<exists>b. init pid boxid boxData = Inr b) \<longleftrightarrow>
           (id_checker boxid \<or> boxid = '''') \<and> (\<exists>b. init pid '''' boxData = Inr b)"
proof
  assume "\<exists>b. init pid boxid boxData = Inr b"
  then obtain b where b: "init pid boxid boxData = Inr b" ..
  from init_Inr_id [OF assms b] have "id_checker boxid \<or> boxid = ''''" ..
  moreover from init_other_id [OF assms b] have "\<exists>b. init pid '''' boxData = Inr b" by simp
  ultimately show "(id_checker boxid \<or> boxid = '''') \<and> (\<exists>b. init pid '''' boxData = Inr b)" ..
next
  assume "(id_checker boxid \<or> boxid = '''') \<and> (\<exists>b. init pid '''' boxData = Inr b)"
  then obtain b0 where "id_checker boxid \<or> boxid = ''''" and "init pid '''' boxData = Inr b0"
    by blast
  with init_other_id [OF assms] show "\<exists>b. init pid boxid boxData = Inr b" by blast
qed

lemma create_box_accepts_iff:
  "(\<exists>b. create_box pid boxid box_content = Inr b) \<longleftrightarrow>
     (id_checker boxid \<or> boxid = '''') \<and> (\<exists>b. create_box pid '''' box_content = Inr b)"
proof
  assume "\<exists>b. create_box pid boxid box_content = Inr b"
  then obtain b where b: "create_box pid boxid box_content = Inr b" ..
  from create_box_Inr [OF b] have "id_checker boxid \<or> boxid = ''''" ..
  moreover from create_box_other_id [OF b] have "\<exists>b. create_box pid '''' box_content = Inr b"
    by simp
  ultimately show "(id_checker boxid \<or> boxid = '''')
      \<and> (\<exists>b. create_box pid '''' box_content = Inr b)" ..
next
  assume "(id_checker boxid \<or> boxid = '''') \<and> (\<exists>b. create_box pid '''' box_content = Inr b)"
  then obtain b0 where "id_checker boxid \<or> boxid = ''''"
    and "create_box pid '''' box_content = Inr b0"
    by blast
  with create_box_other_id show "\<exists>b. create_box pid boxid box_content = Inr b" by blast
qed

text \<open>
  C2, as stated, fails: a problem whose box mapping holds a box with the empty id is not
  constructed. \<^verbatim>\<open>_init_boxes\<close> raises before it creates the box, also when the host's
  constructor raises nothing.
\<close>

theorem empty_box_id_counterexample:
  "CustomProblem_init (\<lambda>problemid content. Inr ()) ''p1''
     (PDict [(''boxes'', PDict [('''', PDict [(''type'', PStr ''text''), (''content'', PStr ''hello'')])])])
   = Inl (Exception ''Empty box ids are not allowed'')"
  by (simp add: CustomProblem_init_def init_boxes_def)

text \<open>
  C2, amended. Constructing a problem whose box mapping contains the empty id fails, whatever
  the host's constructor does; the error is \<open>Empty box ids are not allowed\<close> when the host's
  constructor returned and the boxes before the empty id were created. No box of a
  constructed problem has the empty id. The empty string is an exception to the identifier
  check in \<^verbatim>\<open>_create_box\<close> and in the four box constructors only: each of them refuses
  an id that is neither empty nor passes the check, with its \<open>Invalid box _id\<close> error, and
  accepts any other id exactly when it accepts the same configuration under the empty id;
  the box it builds has the id it was given.
\<close>

theorem empty_box_id_rejected:
  "(py_getitem content ''boxes'' = Inr (PDict items) \<and> '''' \<in> set (map fst items) \<longrightarrow>
      isl (CustomProblem_init Problem_init pid content))
   \<and> (Problem_init pid content = Inr ()
        \<and> py_getitem content ''boxes'' = Inr (PDict (pre @ ('''', cfg) # post))
        \<and> init_boxes_loop pid pre [] = Inr bs \<longrightarrow>
      CustomProblem_init Problem_init pid content
        = Inl (Exception ''Empty box ids are not allowed''))
   \<and> (CustomProblem_init Problem_init pid content = Inr p \<longrightarrow>
        '''' \<notin> set (map box_id (get_boxes p)))
   \<and> (\<not> id_checker boxid \<and> boxid \<noteq> '''' \<longrightarrow>
        create_box pid boxid box_content = Inl (Exception (''Invalid box _id '' @ boxid)))
   \<and> (create_box pid boxid box_content = Inr b \<longrightarrow> box_id b = boxid)
   \<and> ((\<exists>b. create_box pid boxid box_content = Inr b) \<longleftrightarrow>
        (id_checker boxid \<or> boxid = '''') \<and> (\<exists>b. create_box pid '''' box_content = Inr b))
   \<and> (\<forall>init \<in> set [TextBox_init, FileBox_init, InputBox_init, MultilineBox_init].
        (\<not> id_checker boxid \<and> boxid \<noteq> '''' \<longrightarrow>
           init pid boxid box_content = Inl (Exception (''Invalid box _id: '' @ boxid)))
        \<and> (\<forall>b. init pid boxid box_content = Inr b \<longrightarrow> box_id b = boxid)
        \<and> ((\<exists>b. init pid boxid box_content = Inr b) \<longleftrightarrow>
             (id_checker boxid \<or> boxid = '''') \<and> (\<exists>b. init pid '''' box_content = Inr b)))
   \<and> create_box pid '''' (PDict [(''type'', PStr ''text''), (''content'', c)])
        = Inr (TextBox pid '''' c)"
proof -
  have 1: "py_getitem content ''boxes'' = Inr (PDict items) \<and> '''' \<in> set (map fst items) \<longrightarrow>
      isl (CustomProblem_init Problem_init pid content)"
  proof
    assume h: "py_getitem content ''boxes'' = Inr (PDict items) \<and> '''' \<in> set (map fst items)"
    then have "isl (init_boxes_loop pid items [])" by (simp add: init_boxes_loop_empty_id)
    moreover from h have "init_boxes pid content = init_boxes_loop pid items []"
      by (simp add: init_boxes_items)
    ultimately show "isl (CustomProblem_init Problem_init pid content)"
      by (cases "Problem_init pid content"; cases "init_boxes_loop pid items []")
        (simp_all add: CustomProblem_init_def)
  qed
  have 2: "Problem_init pid content = Inr ()
        \<and> py_getitem content ''boxes'' = Inr (PDict (pre @ ('''', cfg) # post))
        \<and> init_boxes_loop pid pre [] = Inr bs \<longrightarrow>
      CustomProblem_init Problem_init pid content
        = Inl (Exception ''Empty box ids are not allowed'')"
  proof
    assume h: "Problem_init pid content = Inr ()
        \<and> py_getitem content ''boxes'' = Inr (PDict (pre @ ('''', cfg) # post))
        \<and> init_boxes_loop pid pre [] = Inr bs"
    then have "init_boxes pid content = init_boxes_loop pid (pre @ ('''', cfg) # post) []"
      by (simp add: init_boxes_items)
    moreover from h have "init_boxes_loop pid (pre @ ('''', cfg) # post) []
        = Inl (Exception ''Empty box ids are not allowed'')"
      by (simp add: init_boxes_loop_stops_at_empty_id)
    ultimately show "CustomProblem_init Problem_init pid content
        = Inl (Exception ''Empty box ids are not allowed'')"
      using h by (simp add: CustomProblem_init_def)
  qed
  have 3: "CustomProblem_init Problem_init pid content = Inr p \<longrightarrow>
        '''' \<notin> set (map box_id (get_boxes p))"
  proof
    assume "CustomProblem_init Problem_init pid content = Inr p"
    then obtain bs where "init_boxes pid content = Inr bs" and "get_boxes p = bs"
      unfolding CustomProblem_init_def by (elim bind_err_InrE) auto
    with init_boxes_Inr show "'''' \<notin> set (map box_id (get_boxes p))" by blast
  qed
  have 4: "\<not> id_checker boxid \<and> boxid \<noteq> '''' \<longrightarrow>
        create_box pid boxid box_content = Inl (Exception (''Invalid box _id '' @ boxid))"
    by (simp add: create_box_bad_id)
  have 5: "create_box pid boxid box_content = Inr b \<longrightarrow> box_id b = boxid"
    by (simp add: create_box_Inr)
  note 6 = create_box_accepts_iff [of pid boxid box_content]
  have 7: "\<forall>init \<in> set [TextBox_init, FileBox_init, InputBox_init, MultilineBox_init].
        (\<not> id_checker boxid \<and> boxid \<noteq> '''' \<longrightarrow>
           init pid boxid box_content = Inl (Exception (''Invalid box _id: '' @ boxid)))
        \<and> (\<forall>b. init pid boxid box_content = Inr b \<longrightarrow> box_id b = boxid)
        \<and> ((\<exists>b. init pid boxid box_content = Inr b) \<longleftrightarrow>
             (id_checker boxid \<or> boxid = '''') \<and> (\<exists>b. init pid '''' box_content = Inr b))"
  proof (intro ballI conjI impI allI)
    fix init :: "string \<Rightarrow> string \<Rightarrow> pyval \<Rightarrow> pyerr + box"
    assume init: "init \<in> set [TextBox_init, FileBox_init, InputBox_init, MultilineBox_init]"
    show "init pid boxid box_content = Inl (Exception (''Invalid box _id: '' @ boxid))"
      if "\<not> id_checker boxid \<and> boxid \<noteq> ''''"
      using that by (simp add: init_bad_id [OF init])
    show "box_id b = boxid" if "init pid boxid box_content = Inr b" for b
      using init_Inr_id [OF init that] ..
    show "(\<exists>b. init pid boxid box_content = Inr b) \<longleftrightarrow>
             (id_checker boxid \<or> boxid = '''') \<and> (\<exists>b. init pid '''' box_content = Inr b)"
      by (rule init_accepts_iff [OF init])
  qed
  have 8: "create_box pid '''' (PDict [(''type'', PStr ''text''), (''content'', c)])
        = Inr (TextBox pid '''' c)"
    by (simp add: create_box_def box_types_def TextBox_init_def BasicBox_init_def)
  show ?thesis
    apply (intro conjI)
           apply (rule 1)
          apply (rule 2)
         apply (rule 3)
        apply (rule 4)
       apply (rule 5)
      apply (rule 6)
     apply (rule 7)
    apply (rule 8)
    done
qed

text \<open>A mapping with the boxes \<open>a\<close> and \<open>""\<close> is refused; the mapping with \<open>a\<close> alone is
  built, and its box has the id \<open>a\<close>. The id \<open>a b\<close> is refused by \<^verbatim>\<open>_create_box\<close> and by
  the constructor of the text box.\<close>

theorem empty_box_id_rejected_witness:
  "py_getitem
     (PDict [(''boxes'', PDict [(''a'', PDict [(''type'', PStr ''text''), (''content'', PStr ''hi'')]),
                               ('''', PDict [(''type'', PStr ''text''), (''content'', PStr ''ho'')])])])
     ''boxes''
     = Inr (PDict ([(''a'', PDict [(''type'', PStr ''text''), (''content'', PStr ''hi'')])]
                   @ ('''', PDict [(''type'', PStr ''text''), (''content'', PStr ''ho'')]) # []))
   \<and> init_boxes_loop ''p1'' [(''a'', PDict [(''type'', PStr ''text''), (''content'', PStr ''hi'')])] []
     = Inr [TextBox ''p1'' ''a'' (PStr ''hi'')]
   \<and> CustomProblem_init (\<lambda>problemid content. Inr ()) ''p1''
       (PDict [(''boxes'', PDict [(''a'', PDict [(''type'', PStr ''text''), (''content'', PStr ''hi'')]),
                                 ('''', PDict [(''type'', PStr ''text''), (''content'', PStr ''ho'')])])])
     = Inl (Exception ''Empty box ids are not allowed'')
   \<and> CustomProblem_init (\<lambda>problemid content. Inr ()) ''p1''
       (PDict [(''boxes'', PDict [(''a'', PDict [(''type'', PStr ''text''), (''content'', PStr ''hi'')])])])
     = Inr \<lparr>get_id = ''p1'', get_boxes = [TextBox ''p1'' ''a'' (PStr ''hi'')]\<rparr>
   \<and> '''' \<notin> set (map box_id (get_boxes
         \<lparr>get_id = ''p1'', get_boxes = [TextBox ''p1'' ''a'' (PStr ''hi'')]\<rparr>))
   \<and> id_checker ''a''
   \<and> create_box ''p1'' ''a'' (PDict [(''type'', PStr ''text''), (''content'', PStr ''hi'')])
     = Inr (TextBox ''p1'' ''a'' (PStr ''hi''))
   \<and> box_id (TextBox ''p1'' ''a'' (PStr ''hi'')) = ''a''
   \<and> \<not> id_checker ''a b'' \<and> ''a b'' \<noteq> ''''
   \<and> create_box ''p1'' ''a b'' (PDict [(''type'', PStr ''text''), (''content'', PStr ''hi'')])
     = Inl (Exception ''Invalid box _id a b'')
   \<and> TextBox_init ''p1'' ''a b'' (PDict [(''type'', PStr ''text''), (''content'', PStr ''hi'')])
     = Inl (Exception ''Invalid box _id: a b'')
   \<and> TextBox_init ''p1'' ''a'' (PDict [(''type'', PStr ''text''), (''content'', PStr ''hi'')])
     = Inr (TextBox ''p1'' ''a'' (PStr ''hi''))"
proof -
  let ?host = "\<lambda>(problemid :: string) (content :: pyval). Inr () :: pyerr + unit"
  let ?a = "PDict [(''type'', PStr ''text''), (''content'', PStr ''hi'')]"
  let ?e = "PDict [(''type'', PStr ''text''), (''content'', PStr ''ho'')]"
  let ?bad = "PDict [(''boxes'', PDict [(''a'', ?a), ('''', ?e)])]"
  let ?good = "PDict [(''boxes'', PDict [(''a'', ?a)])]"
  let ?p = "\<lparr>get_id = ''p1'', get_boxes = [TextBox ''p1'' ''a'' (PStr ''hi'')]\<rparr>"
  have idc: "id_checker ''a''" by (simp add: id_checker_def id_char_def)
  have nidc: "\<not> id_checker ''a b'' \<and> ''a b'' \<noteq> ''''" by (simp add: id_checker_def id_char_def)
  have tb: "TextBox_init ''p1'' ''a'' ?a = Inr (TextBox ''p1'' ''a'' (PStr ''hi''))"
    by (simp add: TextBox_init_def BasicBox_init_def idc)
  have cb: "create_box ''p1'' ''a'' ?a = Inr (TextBox ''p1'' ''a'' (PStr ''hi''))"
    by (simp add: create_box_def box_types_def tb idc)
  have g: "py_getitem ?bad ''boxes'' = Inr (PDict ([(''a'', ?a)] @ ('''', ?e) # []))" by simp
  have pre: "init_boxes_loop ''p1'' [(''a'', ?a)] [] = Inr [TextBox ''p1'' ''a'' (PStr ''hi'')]"
    by (simp add: cb)
  have good: "CustomProblem_init ?host ''p1'' ?good = Inr ?p"
    by (simp add: CustomProblem_init_def init_boxes_def cb)
  have mem: "TextBox_init \<in> set [TextBox_init, FileBox_init, InputBox_init, MultilineBox_init]"
    by simp
  note bad = empty_box_id_rejected [where Problem_init = ?host and content = ?bad
      and pid = "''p1''" and pre = "[(''a'', ?a)]" and cfg = ?e and post = "[]"
      and bs = "[TextBox ''p1'' ''a'' (PStr ''hi'')]" and boxid = "''a b''" and box_content = ?a]
  note ok = empty_box_id_rejected [where Problem_init = ?host and content = ?good
      and pid = "''p1''" and p = ?p
      and boxid = "''a''" and box_content = ?a and b = "TextBox ''p1'' ''a'' (PStr ''hi'')"]
  from bad [THEN conjunct2, THEN conjunct1] g pre
  have 1: "CustomProblem_init ?host ''p1'' ?bad
      = Inl (Exception ''Empty box ids are not allowed'')" by simp
  from ok [THEN conjunct2, THEN conjunct2, THEN conjunct1] good
  have 2: "'''' \<notin> set (map box_id (get_boxes ?p))" by (rule mp)
  from ok [THEN conjunct2, THEN conjunct2, THEN conjunct2, THEN conjunct2, THEN conjunct1] cb
  have 3: "box_id (TextBox ''p1'' ''a'' (PStr ''hi'')) = ''a''" by (rule mp)
  from bad [THEN conjunct2, THEN conjunct2, THEN conjunct2, THEN conjunct1] nidc
  have 4: "create_box ''p1'' ''a b'' ?a = Inl (Exception ''Invalid box _id a b'')" by simp
  from bad [THEN conjunct2, THEN conjunct2, THEN conjunct2, THEN conjunct2, THEN conjunct2,
      THEN conjunct2, THEN conjunct1, THEN bspec, OF mem, THEN conjunct1] nidc
  have 5: "TextBox_init ''p1'' ''a b'' ?a = Inl (Exception ''Invalid box _id: a b'')" by simp
  show ?thesis
    apply (intro conjI)
               apply (rule g)
              apply (rule pre)
             apply (rule 1)
            apply (rule good)
           apply (rule 2)
          apply (rule idc)
         apply (rule cb)
        apply (rule 3)
       apply (rule nidc [THEN conjunct1])
      apply (rule nidc [THEN conjunct2])
     apply (rule 4)
    apply (rule 5)
    apply (rule tb)
    done
qed

subsection \<open>Adaptation\<close>

lemma FileBox_adapt_eq:
  "DisplayableFileBox_adapt_input_for_backend self m =
     m(get_complete_id self \<mapsto>
        (case m (get_complete_id self) of
           Some (PObject attrs) \<Rightarrow>
             (case map_of attrs ''filename'' of
                Some filename \<Rightarrow>
                  (case map_of attrs ''value'' of
                     Some val \<Rightarrow> PDict [(''filename'', filename), (''value'', val)]
                   | None \<Rightarrow> PDict [])
              | None \<Rightarrow> PDict [])
         | other \<Rightarrow> PDict []))"
proof (cases "m (get_complete_id self)")
  case None
  then show ?thesis
    by (simp add: DisplayableFileBox_adapt_input_for_backend_def dict_getitem_def)
next
  case (Some v)
  then show ?thesis
    by (cases v)
      (simp_all add: DisplayableFileBox_adapt_input_for_backend_def dict_getitem_def
        split: option.splits)
qed

lemma adapt_box_frame:
  assumes "k \<noteq> get_complete_id b"
  shows "adapt_input_for_backend b m k = m k"
  using assms
  by (cases b) (simp_all add: FileBox_adapt_eq DisplayableBox_adapt_input_for_backend_def)

lemma fold_adapt_frame:
  assumes "k \<notin> set (map get_complete_id bs)"
  shows "fold adapt_input_for_backend bs m k = m k"
  using assms
proof (induction bs arbitrary: m)
  case Nil
  then show ?case by simp
next
  case (Cons b bs)
  then have "k \<noteq> get_complete_id b" and "k \<notin> set (map get_complete_id bs)" by auto
  then show ?case using Cons.IH [of "adapt_input_for_backend b m"] adapt_box_frame by simp
qed

lemma fold_adapt_own_entry:
  assumes "distinct (map get_complete_id bs)" and "b \<in> set bs"
  shows "fold adapt_input_for_backend bs m (get_complete_id b)
           = adapt_input_for_backend b m (get_complete_id b)"
  using assms
proof (induction bs arbitrary: m)
  case Nil
  then show ?case by simp
next
  case (Cons a bs)
  show ?case
  proof (cases "b = a")
    case True
    from Cons.prems(1) have "get_complete_id a \<notin> set (map get_complete_id bs)" by simp
    then have "fold adapt_input_for_backend bs (adapt_input_for_backend a m) (get_complete_id a)
                 = adapt_input_for_backend a m (get_complete_id a)"
      by (rule fold_adapt_frame)
    with True show ?thesis by simp
  next
    case False
    with Cons.prems have b: "b \<in> set bs" and d: "distinct (map get_complete_id bs)"
      by auto
    from Cons.prems(1) have "get_complete_id a \<notin> get_complete_id ` set bs" by simp
    with b have ne: "get_complete_id b \<noteq> get_complete_id a"
      by (metis imageI)
    have "fold adapt_input_for_backend bs (adapt_input_for_backend a m) (get_complete_id b)
            = adapt_input_for_backend b (adapt_input_for_backend a m) (get_complete_id b)"
      using d b by (rule Cons.IH)
    also have "\<dots> = adapt_input_for_backend b m (get_complete_id b)"
      using adapt_box_frame [OF ne, of m]
      by (cases b)
        (simp_all add: FileBox_adapt_eq DisplayableBox_adapt_input_for_backend_def)
    finally show ?thesis by simp
  qed
qed

text \<open>
  C8. \<^verbatim>\<open>adapt_input_for_backend\<close> of the problem leaves every key that is no box's
  composite id as it was; where the composite ids are distinct, the entry of a box after
  the whole pass is what that box alone makes of it. A box changes no key but its own. The
  text, input and multiline boxes return the mapping as it is. The file box replaces its
  entry by the record of the \<^verbatim>\<open>filename\<close> and \<^verbatim>\<open>value\<close> attributes of the uploaded
  object, and by the empty record when the entry is missing or lacks either attribute.
\<close>

theorem adapt_touches_own_entries_only:
  "(k \<notin> set (map get_complete_id (get_boxes p)) \<longrightarrow>
      DisplayableCustomProblem_adapt_input_for_backend p input_data k = input_data k)
   \<and> (distinct (map get_complete_id (get_boxes p)) \<and> b \<in> set (get_boxes p) \<longrightarrow>
      DisplayableCustomProblem_adapt_input_for_backend p input_data (get_complete_id b)
        = adapt_input_for_backend b input_data (get_complete_id b))
   \<and> (k \<noteq> get_complete_id b \<longrightarrow> adapt_input_for_backend b input_data k = input_data k)
   \<and> adapt_input_for_backend (TextBox pid bid c) input_data = input_data
   \<and> adapt_input_for_backend (InputBox pid bid it dv opt mc) input_data = input_data
   \<and> adapt_input_for_backend (MultilineBox pid bid mc opt nlines lang) input_data = input_data
   \<and> adapt_input_for_backend (FileBox pid bid exts msize) input_data =
       input_data(get_complete_id (FileBox pid bid exts msize) \<mapsto>
         (case input_data (get_complete_id (FileBox pid bid exts msize)) of
            Some (PObject attrs) \<Rightarrow>
              (case map_of attrs ''filename'' of
                 Some filename \<Rightarrow>
                   (case map_of attrs ''value'' of
                      Some val \<Rightarrow> PDict [(''filename'', filename), (''value'', val)]
                    | None \<Rightarrow> PDict [])
               | None \<Rightarrow> PDict [])
          | other \<Rightarrow> PDict []))"
  using fold_adapt_frame [of k "get_boxes p" input_data]
    fold_adapt_own_entry [of "get_boxes p" b input_data]
    adapt_box_frame [of k b input_data]
  by (simp add: DisplayableCustomProblem_adapt_input_for_backend_def
      DisplayableBox_adapt_input_for_backend_def FileBox_adapt_eq)

text \<open>A text box and a file box: a foreign key stays, the upload becomes a record, and a
  value that is no upload becomes the empty record.\<close>

theorem adapt_touches_own_entries_only_witness:
  "''other'' \<notin> set (map get_complete_id (get_boxes
       \<lparr>get_id = ''p1'', get_boxes =
          [TextBox ''p1'' ''t'' (PStr ''read me''), FileBox ''p1'' ''f'' PNone PNone]\<rparr>))
   \<and> DisplayableCustomProblem_adapt_input_for_backend
       \<lparr>get_id = ''p1'', get_boxes =
          [TextBox ''p1'' ''t'' (PStr ''read me''), FileBox ''p1'' ''f'' PNone PNone]\<rparr>
       [''other'' \<mapsto> PStr ''x'',
        ''p1/f'' \<mapsto> PObject [(''filename'', PStr ''a.zip''), (''value'', PBytes ''abc'')]]
       ''other''
     = Some (PStr ''x'')
   \<and> distinct (map get_complete_id (get_boxes
       \<lparr>get_id = ''p1'', get_boxes =
          [TextBox ''p1'' ''t'' (PStr ''read me''), FileBox ''p1'' ''f'' PNone PNone]\<rparr>))
   \<and> FileBox ''p1'' ''f'' PNone PNone \<in> set (get_boxes
       \<lparr>get_id = ''p1'', get_boxes =
          [TextBox ''p1'' ''t'' (PStr ''read me''), FileBox ''p1'' ''f'' PNone PNone]\<rparr>)
   \<and> DisplayableCustomProblem_adapt_input_for_backend
       \<lparr>get_id = ''p1'', get_boxes =
          [TextBox ''p1'' ''t'' (PStr ''read me''), FileBox ''p1'' ''f'' PNone PNone]\<rparr>
       [''other'' \<mapsto> PStr ''x'',
        ''p1/f'' \<mapsto> PObject [(''filename'', PStr ''a.zip''), (''value'', PBytes ''abc'')]]
       ''p1/f''
     = Some (PDict [(''filename'', PStr ''a.zip''), (''value'', PBytes ''abc'')])
   \<and> adapt_input_for_backend (FileBox ''p1'' ''f'' PNone PNone)
       [''other'' \<mapsto> PStr ''x'', ''p1/f'' \<mapsto> PStr ''not an upload'']
     = [''other'' \<mapsto> PStr ''x'', ''p1/f'' \<mapsto> PDict []]"
proof -
  let ?f = "FileBox ''p1'' ''f'' PNone PNone"
  let ?p = "\<lparr>get_id = ''p1'', get_boxes = [TextBox ''p1'' ''t'' (PStr ''read me''), ?f]\<rparr>"
  let ?m = "[''other'' \<mapsto> PStr ''x'',
        ''p1/f'' \<mapsto> PObject [(''filename'', PStr ''a.zip''), (''value'', PBytes ''abc'')]]"
  let ?m2 = "[''other'' \<mapsto> PStr ''x'', ''p1/f'' \<mapsto> PStr ''not an upload'']"
  have a: "''other'' \<notin> set (map get_complete_id (get_boxes ?p))"
    by (simp add: get_complete_id_def)
  have b: "distinct (map get_complete_id (get_boxes ?p))"
    by (simp add: get_complete_id_def)
  have c: "?f \<in> set (get_boxes ?p)" by simp
  note inst = adapt_touches_own_entries_only [where p = ?p and k = "''other''" and b = ?f
      and pid = "''p1''" and bid = "''f''" and exts = PNone and msize = PNone]
  from inst [where input_data = ?m] a
  have 1: "DisplayableCustomProblem_adapt_input_for_backend ?p ?m ''other'' = Some (PStr ''x'')"
    by simp
  from inst [where input_data = ?m] b c
  have 2: "DisplayableCustomProblem_adapt_input_for_backend ?p ?m ''p1/f''
      = Some (PDict [(''filename'', PStr ''a.zip''), (''value'', PBytes ''abc'')])"
    by (simp add: get_complete_id_def)
  from inst [where input_data = ?m2]
  have 3: "adapt_input_for_backend ?f ?m2 = [''other'' \<mapsto> PStr ''x'', ''p1/f'' \<mapsto> PDict []]"
    by (simp add: get_complete_id_def)
  from a 1 b c 2 3 show ?thesis by blast
qed

subsection \<open>The problem-level check\<close>

lemma boxes_False_iff:
  "boxes_input_is_consistent gs bs ti dext dmax = Inr (False, ti') \<longleftrightarrow>
     (\<exists>k ts. k < length bs \<and> length ts = Suc k \<and> ts ! 0 = ti
        \<and> (\<forall>i<k. input_is_consistent gs (bs ! i) (ts ! i) dext dmax = Inr (True, ts ! Suc i))
        \<and> input_is_consistent gs (bs ! k) (ts ! k) dext dmax = Inr (False, ti'))"
proof (induction bs arbitrary: ti)
  case Nil
  then show ?case by simp
next
  case (Cons b bs)
  show ?case
  proof
    assume lhs: "boxes_input_is_consistent gs (b # bs) ti dext dmax = Inr (False, ti')"
    then obtain r where r: "input_is_consistent gs b ti dext dmax = Inr r"
      and rest: "(if \<not> fst r then Inr (False, snd r)
                  else boxes_input_is_consistent gs bs (snd r) dext dmax) = Inr (False, ti')"
      by (auto elim!: bind_err_InrE)
    show "\<exists>k ts. k < length (b # bs) \<and> length ts = Suc k \<and> ts ! 0 = ti
        \<and> (\<forall>i<k. input_is_consistent gs ((b # bs) ! i) (ts ! i) dext dmax
               = Inr (True, ts ! Suc i))
        \<and> input_is_consistent gs ((b # bs) ! k) (ts ! k) dext dmax = Inr (False, ti')"
    proof (cases "fst r")
      case False
      with rest r have "input_is_consistent gs b ti dext dmax = Inr (False, ti')"
        by (cases r) auto
      then have "0 < length (b # bs) \<and> length [ti] = Suc 0 \<and> [ti] ! 0 = ti
        \<and> (\<forall>i<0. input_is_consistent gs ((b # bs) ! i) ([ti] ! i) dext dmax
               = Inr (True, [ti] ! Suc i))
        \<and> input_is_consistent gs ((b # bs) ! 0) ([ti] ! 0) dext dmax = Inr (False, ti')"
        by simp
      then show ?thesis by blast
    next
      case True
      with rest have "boxes_input_is_consistent gs bs (snd r) dext dmax = Inr (False, ti')"
        by simp
      with Cons.IH [of "snd r"] obtain k ts where k: "k < length bs"
        and len: "length ts = Suc k" and t0: "ts ! 0 = snd r"
        and pre: "\<forall>i<k. input_is_consistent gs (bs ! i) (ts ! i) dext dmax
                    = Inr (True, ts ! Suc i)"
        and last: "input_is_consistent gs (bs ! k) (ts ! k) dext dmax = Inr (False, ti')"
        by blast
      from True r t0 have first: "input_is_consistent gs b ti dext dmax = Inr (True, ts ! 0)"
        by (cases r) auto
      have "\<forall>i<Suc k. input_is_consistent gs ((b # bs) ! i) ((ti # ts) ! i) dext dmax
               = Inr (True, (ti # ts) ! Suc i)"
      proof (intro allI impI)
        fix i assume "i < Suc k"
        then show "input_is_consistent gs ((b # bs) ! i) ((ti # ts) ! i) dext dmax
               = Inr (True, (ti # ts) ! Suc i)"
          using first pre by (cases i) simp_all
      qed
      with k len last have "Suc k < length (b # bs) \<and> length (ti # ts) = Suc (Suc k)
        \<and> (ti # ts) ! 0 = ti
        \<and> (\<forall>i<Suc k. input_is_consistent gs ((b # bs) ! i) ((ti # ts) ! i) dext dmax
               = Inr (True, (ti # ts) ! Suc i))
        \<and> input_is_consistent gs ((b # bs) ! Suc k) ((ti # ts) ! Suc k) dext dmax
            = Inr (False, ti')"
        by simp
      then show ?thesis by blast
    qed
  next
    assume "\<exists>k ts. k < length (b # bs) \<and> length ts = Suc k \<and> ts ! 0 = ti
        \<and> (\<forall>i<k. input_is_consistent gs ((b # bs) ! i) (ts ! i) dext dmax
               = Inr (True, ts ! Suc i))
        \<and> input_is_consistent gs ((b # bs) ! k) (ts ! k) dext dmax = Inr (False, ti')"
    then obtain k ts where k: "k < length (b # bs)"
      and len: "length ts = Suc k" and t0: "ts ! 0 = ti"
      and pre: "\<forall>i<k. input_is_consistent gs ((b # bs) ! i) (ts ! i) dext dmax
                  = Inr (True, ts ! Suc i)"
      and last: "input_is_consistent gs ((b # bs) ! k) (ts ! k) dext dmax = Inr (False, ti')"
      by blast
    show "boxes_input_is_consistent gs (b # bs) ti dext dmax = Inr (False, ti')"
    proof (cases k)
      case 0
      with last t0 show ?thesis by simp
    next
      case (Suc j)
      from len Suc obtain t ts' where ts: "ts = t # ts'" and len': "length ts' = Suc j"
        by (cases ts) auto
      from t0 ts have t: "t = ti" by simp
      from pre Suc ts t have first: "input_is_consistent gs b ti dext dmax = Inr (True, ts' ! 0)"
        by (auto dest: spec [of _ 0])
      have pre': "\<forall>i<j. input_is_consistent gs (bs ! i) (ts' ! i) dext dmax
                  = Inr (True, ts' ! Suc i)"
      proof (intro allI impI)
        fix i assume "i < j"
        then have "Suc i < k" using Suc by simp
        with pre have "input_is_consistent gs ((b # bs) ! Suc i) (ts ! Suc i) dext dmax
                  = Inr (True, ts ! Suc (Suc i))" by blast
        then show "input_is_consistent gs (bs ! i) (ts' ! i) dext dmax
                  = Inr (True, ts' ! Suc i)"
          using ts by simp
      qed
      from last Suc ts have last': "input_is_consistent gs (bs ! j) (ts' ! j) dext dmax
          = Inr (False, ti')" by simp
      from k Suc have "j < length bs" by simp
      with len' pre' last' have "boxes_input_is_consistent gs bs (ts' ! 0) dext dmax
          = Inr (False, ti')"
        using Cons.IH [of "ts' ! 0"] by blast
      with first show ?thesis by simp
    qed
  qed
qed

text \<open>
  C3. The problem-level \<^verbatim>\<open>input_is_consistent\<close> returns False, leaving the mapping
  \<open>task_input'\<close>, if and only if there is a box \<open>k\<close> such that the boxes before it, run in
  declaration order from the submitted mapping (\<open>ts ! i\<close> is the mapping box \<open>i\<close> starts
  from), all returned True, and box \<open>k\<close> returned False leaving \<open>task_input'\<close>. The boxes
  after \<open>k\<close> are not run: the result is the mapping as box \<open>k\<close> left it.
\<close>

theorem problem_false_iff_first_failing_box:
  "CustomProblem_input_is_consistent getsizeof self task_input dext dmax = Inr (False, task_input')
   \<longleftrightarrow>
   (\<exists>k ts. k < length (get_boxes self) \<and> length ts = Suc k \<and> ts ! 0 = task_input
      \<and> (\<forall>i<k. input_is_consistent getsizeof (get_boxes self ! i) (ts ! i) dext dmax
             = Inr (True, ts ! Suc i))
      \<and> input_is_consistent getsizeof (get_boxes self ! k) (ts ! k) dext dmax
          = Inr (False, task_input'))"
  unfolding CustomProblem_input_is_consistent_def by (rule boxes_False_iff)

text \<open>Three input boxes, all submitted empty: \<open>b\<close> is optional and gets its default,
  \<open>a\<close> is required and fails, and the optional \<open>c\<close> after it keeps the empty value.\<close>

theorem problem_false_iff_first_failing_box_witness:
  "CustomProblem_input_is_consistent (\<lambda>v. 0)
      \<lparr>get_id = ''p1'', get_boxes =
         [InputBox ''p1'' ''b'' ''integer'' ''0'' (PBool True) 0,
          InputBox ''p1'' ''a'' ''text'' '''' (PBool False) 0,
          InputBox ''p1'' ''c'' ''decimal'' ''0.0'' (PBool True) 0]\<rparr>
      [''p1/a'' \<mapsto> PStr '''', ''p1/b'' \<mapsto> PStr '''', ''p1/c'' \<mapsto> PStr ''''] PNone PNone
     = Inr (False, [''p1/a'' \<mapsto> PStr '''', ''p1/b'' \<mapsto> PStr ''0'', ''p1/c'' \<mapsto> PStr ''''])
   \<and> (\<exists>k ts. k < length (get_boxes \<lparr>get_id = ''p1'', get_boxes =
         [InputBox ''p1'' ''b'' ''integer'' ''0'' (PBool True) 0,
          InputBox ''p1'' ''a'' ''text'' '''' (PBool False) 0,
          InputBox ''p1'' ''c'' ''decimal'' ''0.0'' (PBool True) 0]\<rparr>)
        \<and> length ts = Suc k
        \<and> ts ! 0 = [''p1/a'' \<mapsto> PStr '''', ''p1/b'' \<mapsto> PStr '''', ''p1/c'' \<mapsto> PStr '''']
        \<and> (\<forall>i<k. input_is_consistent (\<lambda>v. 0) (get_boxes \<lparr>get_id = ''p1'', get_boxes =
         [InputBox ''p1'' ''b'' ''integer'' ''0'' (PBool True) 0,
          InputBox ''p1'' ''a'' ''text'' '''' (PBool False) 0,
          InputBox ''p1'' ''c'' ''decimal'' ''0.0'' (PBool True) 0]\<rparr> ! i) (ts ! i) PNone PNone
               = Inr (True, ts ! Suc i))
        \<and> input_is_consistent (\<lambda>v. 0) (get_boxes \<lparr>get_id = ''p1'', get_boxes =
         [InputBox ''p1'' ''b'' ''integer'' ''0'' (PBool True) 0,
          InputBox ''p1'' ''a'' ''text'' '''' (PBool False) 0,
          InputBox ''p1'' ''c'' ''decimal'' ''0.0'' (PBool True) 0]\<rparr> ! k) (ts ! k) PNone PNone
            = Inr (False, [''p1/a'' \<mapsto> PStr '''', ''p1/b'' \<mapsto> PStr ''0'', ''p1/c'' \<mapsto> PStr '''']))"
proof -
  let ?p = "\<lparr>get_id = ''p1'', get_boxes =
         [InputBox ''p1'' ''b'' ''integer'' ''0'' (PBool True) 0,
          InputBox ''p1'' ''a'' ''text'' '''' (PBool False) 0,
          InputBox ''p1'' ''c'' ''decimal'' ''0.0'' (PBool True) 0]\<rparr>"
  let ?ti = "[''p1/a'' \<mapsto> PStr '''', ''p1/b'' \<mapsto> PStr '''', ''p1/c'' \<mapsto> PStr '''']"
  let ?ti' = "[''p1/a'' \<mapsto> PStr '''', ''p1/b'' \<mapsto> PStr ''0'', ''p1/c'' \<mapsto> PStr '''']"
  have upd: "?ti(''p1/b'' \<mapsto> PStr ''0'') = ?ti'"
    by (rule ext) simp
  have run: "CustomProblem_input_is_consistent (\<lambda>v. 0) ?p ?ti PNone PNone = Inr (False, ?ti')"
    by (simp add: CustomProblem_input_is_consistent_def InputBox_input_is_consistent_def
        BasicBox_input_is_consistent_def exceeds_max_chars_def InputBox_empty_check_def
        dict_getitem_def get_complete_id_def int_literal_0 upd)
  from problem_false_iff_first_failing_box [where getsizeof = "\<lambda>v. 0" and self = ?p
      and task_input = ?ti and task_input' = ?ti' and dext = PNone and dmax = PNone,
      THEN iffD1, OF run] run
  show ?thesis by blast
qed

subsection \<open>The parsed task definition\<close>





end
